theory Spec2Isabelle
  imports Main "HOL-Library.Finite_Map" "HOL-Library.Word"
begin

section \<open>TickTick client: a shallow embedding of \<open>scripts/ticktick_api.py\<close> and \<open>scripts/ticktick_cli.py\<close>\<close>

text \<open>
  The client talks to two remote interfaces over HTTP: the official one (V1, bearer token)
  and the internal one (V2, session cookie). The embedding keeps the Python's structure:
  \<^item> JSON documents are values of the datatype \<open>json\<close>; a Python \<open>dict\<close> is a finite map;
  \<^item> a Python \<open>str\<close> is a \<open>string\<close> holding its UTF-8 bytes;
  \<^item> every function that performs I/O takes the state \<open>world\<close> (the requests sent so far,
    the diagnostics printed on the error stream and the documents printed on the output
    stream so far) and returns the new one;
  \<^item> \<open>sys.exit\<close> and every uncaught exception are values of \<open>error\<close>, returned as \<open>Inl\<close>;
  \<^item> the remote side is a parameter \<open>srv\<close>, a function from the request to the response.
    A response is an HTTP error (the \<open>urllib.error.HTTPError\<close> the code catches) or a
    success whose body is empty or a JSON document. Request headers are not recorded.
\<close>

subsection \<open>JSON values and the Python primitives used on them\<close>

datatype json =
    JNull
  | JBool bool
  | JInt int
  | JStr string
  | JList "json list"
  | JObj "(string, json) fmap"

type_synonym dict = "(string, json) fmap"

text \<open>Python truth value testing (\<open>if x\<close>, \<open>not x\<close>).\<close>

fun truthy :: "json \<Rightarrow> bool" where
  "truthy JNull = False"
| "truthy (JBool b) = b"
| "truthy (JInt n) = (n \<noteq> 0)"
| "truthy (JStr s) = (s \<noteq> [])"
| "truthy (JList xs) = (xs \<noteq> [])"
| "truthy (JObj m) = (m \<noteq> fmempty)"

text \<open>An optional argument: \<open>None\<close> is Python's \<open>None\<close>, which is falsy.\<close>

definition truthy_opt :: "json option \<Rightarrow> bool" where
  "truthy_opt x = (case x of None \<Rightarrow> False | Some v \<Rightarrow> truthy v)"

datatype error =
    SystemExit nat
  | TypeError
  | AttributeError
  | KeyError string
  | JSONDecodeError

text \<open>\<open>d.get(key, default)\<close>: only a dictionary has the method.\<close>

fun py_get :: "json \<Rightarrow> string \<Rightarrow> json \<Rightarrow> error + json" where
  "py_get (JObj m) k d = Inr (case fmlookup m k of None \<Rightarrow> d | Some v \<Rightarrow> v)"
| "py_get _ k d = Inl AttributeError"

text \<open>\<open>d[key]\<close> with a string key: a missing key raises \<open>KeyError\<close>, a value that is not a
  dictionary raises \<open>TypeError\<close>.\<close>

fun py_getitem :: "json \<Rightarrow> string \<Rightarrow> error + json" where
  "py_getitem (JObj m) k = (case fmlookup m k of None \<Rightarrow> Inl (KeyError k) | Some v \<Rightarrow> Inr v)"
| "py_getitem _ k = Inl TypeError"

text \<open>
  Iteration (\<open>for x in v\<close>, \<open>list.extend(v)\<close>, a comprehension over \<open>v\<close>). The methods whose
  results the code iterates over are annotated \<open>-> list\<close>; the model iterates over arrays
  and over the empty dictionary (the result of a request answered with an empty body).
  Python also iterates over the keys of a non-empty dictionary and the characters of a
  string; the model does not follow it there and stops with \<open>TypeError\<close>, as it does
  for numbers, booleans and \<open>None\<close>.
\<close>

fun py_iter :: "json \<Rightarrow> error + json list" where
  "py_iter (JList xs) = Inr xs"
| "py_iter (JObj m) = (if m = fmempty then Inr [] else Inl TypeError)"
| "py_iter (JStr s) = (if s = [] then Inr [] else Inl TypeError)"
| "py_iter _ = Inl TypeError"

text \<open>\<open>v == s\<close> for a string \<open>s\<close>, and \<open>v == n\<close> for an integer \<open>n\<close> (in Python \<open>False == 0\<close> and
  \<open>True == 1\<close>).\<close>

fun eq_str :: "json \<Rightarrow> string \<Rightarrow> bool" where
  "eq_str (JStr s) s' = (s = s')"
| "eq_str _ s' = False"

fun eq_int :: "json \<Rightarrow> int \<Rightarrow> bool" where
  "eq_int (JInt n) n' = (n = n')"
| "eq_int (JBool b) n' = ((if b then 1 else 0) = n')"
| "eq_int _ n' = False"

text \<open>
  A list comprehension \<open>[t for t in ts if cond(t)]\<close> whose condition may raise: the first
  element on which it raises ends the comprehension.
\<close>

fun comprehension :: "(json \<Rightarrow> error + bool) \<Rightarrow> json list \<Rightarrow> error + json list" where
  "comprehension cond [] = Inr []"
| "comprehension cond (t # ts) =
     (case cond t of
        Inl e \<Rightarrow> Inl e
      | Inr b \<Rightarrow>
          (case comprehension cond ts of
             Inl e \<Rightarrow> Inl e
           | Inr r \<Rightarrow> Inr (if b then t # r else r)))"

text \<open>An optional string argument (\<open>str = None\<close>): \<open>None\<close> and the empty string are falsy.\<close>

definition str_truthy :: "string option \<Rightarrow> bool" where
  "str_truthy x = (case x of None \<Rightarrow> False | Some s \<Rightarrow> s \<noteq> [])"

text \<open>
  The messages handed to \<open>_error_exit\<close>, one constructor for each message of the source,
  carrying the parts the source interpolates.
\<close>

datatype diag =
    V1_token_missing
  | V2_credentials_missing
  | V1_api_error nat string
  | V2_api_error nat string
  | V2_login_failed "string option"
  | No_credentials
  | Requires_V1 string
  | Requires_V2 string
  | Requires_projectId

record request =
  req_method :: string
  req_url :: string
  req_body :: "json option"

text \<open>
  A successful response carries its \<open>Set-Cookie\<close> header lines and its body; the body
  \<open>None\<close> is the empty text.
\<close>

datatype response =
    HTTPError nat string
  | Response "string list" "json option"

type_synonym server = "request \<Rightarrow> response"

record world =
  requests :: "request list"
  stderr :: "diag list"
  stdout :: "json list"

text \<open>\<open>_error_exit(msg)\<close>: print the diagnostic on the error stream, then \<open>sys.exit(1)\<close>.\<close>

definition error_exit :: "diag \<Rightarrow> world \<Rightarrow> (error + 'a) \<times> world" where
  "error_exit msg s = (Inl (SystemExit 1), s\<lparr>stderr := stderr s @ [msg]\<rparr>)"

subsection \<open>Percent-encoding of identifiers\<close>

definition hex_upper :: "nat \<Rightarrow> char" where
  "hex_upper n = ''0123456789ABCDEF'' ! (n mod 16)"

definition always_safe :: "char set" where
  "always_safe = set (''ABCDEFGHIJKLMNOPQRSTUVWXYZ'' @ ''abcdefghijklmnopqrstuvwxyz''
                       @ ''0123456789'' @ ''_.-~'')"

text \<open>\<open>urllib.parse.quote(s, safe="")\<close> on a \<open>str\<close>, byte by byte.\<close>

definition quote_byte :: "char \<Rightarrow> string" where
  "quote_byte c =
     (if c \<in> always_safe then [c]
      else [CHR ''%'', hex_upper (of_char c div 16), hex_upper (of_char c)])"

definition quote_str :: "string \<Rightarrow> string" where
  "quote_str s = concat (map quote_byte s)"

text \<open>\<open>quote\<close> raises \<open>TypeError\<close> on anything that is neither \<open>str\<close> nor \<open>bytes\<close>.\<close>

fun quote :: "json \<Rightarrow> error + string" where
  "quote (JStr s) = Inr (quote_str s)"
| "quote _ = Inl TypeError"

text \<open>\<open>urllib.parse.urlencode\<close> of a dictionary of strings: \<open>quote_plus\<close> on keys and values.\<close>

definition quote_plus_byte :: "char \<Rightarrow> string" where
  "quote_plus_byte c = (if c = CHR '' '' then ''+'' else quote_byte c)"

definition quote_plus :: "string \<Rightarrow> string" where
  "quote_plus s = concat (map quote_plus_byte s)"

fun join_amp :: "string list \<Rightarrow> string" where
  "join_amp [] = []"
| "join_amp [x] = x"
| "join_amp (x # y # ys) = x @ ''&'' @ join_amp (y # ys)"

definition urlencode :: "(string \<times> string) list \<Rightarrow> string" where
  "urlencode params = join_amp (map (\<lambda>(k, v). quote_plus k @ ''='' @ quote_plus v) params)"

subsection \<open>Numbers as text, random tokens\<close>

text \<open>\<open>str(n)\<close> of a natural number (the HTTP status code in a message).\<close>

fun str_nat :: "nat \<Rightarrow> string" where
  "str_nat n =
     (if n < 10 then [''0123456789'' ! n]
      else str_nat (n div 10) @ [''0123456789'' ! (n mod 10)])"

declare str_nat.simps [simp del]

definition hex_lower :: "nat \<Rightarrow> char" where
  "hex_lower n = ''0123456789abcdef'' ! (n mod 16)"

text \<open>The lowercase hexadecimal digits of a natural number, without leading zeros.\<close>

fun hex_digits :: "nat \<Rightarrow> string" where
  "hex_digits n =
     (if n < 16 then [hex_lower n]
      else hex_digits (n div 16) @ [hex_lower n])"

declare hex_digits.simps [simp del]

definition zero_pad :: "nat \<Rightarrow> string \<Rightarrow> string" where
  "zero_pad w s = replicate (w - length s) CHR ''0'' @ s"

text \<open>
  \<open>format(n, '08x')\<close>: lowercase hexadecimal, zero-padded to a width of at least eight
  characters; the sign of a negative number counts in the width.
\<close>

definition format_08x :: "int \<Rightarrow> string" where
  "format_08x n =
     (if n < 0 then CHR ''-'' # zero_pad 7 (hex_digits (nat (- n)))
      else zero_pad 8 (hex_digits (nat n)))"

text \<open>
  The operating system's random source is a parameter \<open>entropy\<close>, giving the bytes drawn.
  \<open>secrets.token_hex(nbytes)\<close> draws \<open>nbytes\<close> bytes and writes each as two lowercase
  hexadecimal digits.
\<close>

type_synonym entropy = "nat \<Rightarrow> 8 word"

definition byte_hex :: "8 word \<Rightarrow> string" where
  "byte_hex b = [hex_lower (unat b div 16), hex_lower (unat b)]"

definition token_hex :: "nat \<Rightarrow> entropy \<Rightarrow> string" where
  "token_hex nbytes entropy = concat (map (\<lambda>i. byte_hex (entropy i)) [0..<nbytes])"

text \<open>
  Reading lowercase hexadecimal back: \<open>hex_chars\<close> are the sixteen digits,
  \<open>hex_value s\<close> is the number that the digits of \<open>s\<close> write.
\<close>

definition hex_chars :: "char set" where
  "hex_chars = set ''0123456789abcdef''"

definition digit_value :: "char \<Rightarrow> nat" where
  "digit_value c = length (takeWhile (\<lambda>d. d \<noteq> c) ''0123456789abcdef'')"

definition hex_value :: "string \<Rightarrow> nat" where
  "hex_value s = foldl (\<lambda>a c. 16 * a + digit_value c) 0 s"

subsection \<open>The official interface (class \<open>TickTickV1\<close>)\<close>

record TickTickV1 =
  access_token :: string

text \<open>\<open>TickTickV1.__init__\<close>.\<close>

definition TickTickV1_init :: "string option \<Rightarrow> world \<Rightarrow> (error + TickTickV1) \<times> world" where
  "TickTickV1_init token s =
     (case token of
        None \<Rightarrow> error_exit V1_token_missing s
      | Some tok \<Rightarrow>
          if tok = [] then error_exit V1_token_missing s
          else (Inr \<lparr>access_token = tok\<rparr>, s))"

definition V1_BASE_URL :: string where
  "V1_BASE_URL = ''https://api.ticktick.com/open/v1''"

text \<open>
  \<open>TickTickV1._request\<close>: the body is sent only when \<open>data\<close> is truthy; an empty answer is
  the empty dictionary; an HTTP error is fatal.
\<close>

definition V1_request ::
  "server \<Rightarrow> TickTickV1 \<Rightarrow> string \<Rightarrow> string \<Rightarrow> json option \<Rightarrow> world \<Rightarrow> (error + json) \<times> world" where
  "V1_request srv self meth path data s =
     (let body = (if truthy_opt data then data else None);
          req = \<lparr>req_method = meth, req_url = V1_BASE_URL @ path, req_body = body\<rparr>;
          s' = s\<lparr>requests := requests s @ [req]\<rparr>
      in case srv req of
           HTTPError code body_text \<Rightarrow> error_exit (V1_api_error code body_text) s'
         | Response cookies None \<Rightarrow> (Inr (JObj fmempty), s')
         | Response cookies (Some j) \<Rightarrow> (Inr j, s'))"

definition V1_get_task ::
  "server \<Rightarrow> TickTickV1 \<Rightarrow> json \<Rightarrow> string \<Rightarrow> world \<Rightarrow> (error + json) \<times> world" where
  "V1_get_task srv self project_id task_id s =
     (case quote project_id of
        Inl e \<Rightarrow> (Inl e, s)
      | Inr pid \<Rightarrow>
          (let tid = quote_str task_id
           in V1_request srv self ''GET'' (''/project/'' @ pid @ ''/task/'' @ tid) None s))"

definition V1_update_task ::
  "server \<Rightarrow> TickTickV1 \<Rightarrow> string \<Rightarrow> json \<Rightarrow> world \<Rightarrow> (error + json) \<times> world" where
  "V1_update_task srv self task_id task_data s =
     (let tid = quote_str task_id
      in V1_request srv self ''POST'' (''/task/'' @ tid) (Some task_data) s)"

definition V1_list_projects :: "server \<Rightarrow> TickTickV1 \<Rightarrow> world \<Rightarrow> (error + json) \<times> world" where
  "V1_list_projects srv self s = V1_request srv self ''GET'' ''/project'' None s"

definition V1_get_project_data ::
  "server \<Rightarrow> TickTickV1 \<Rightarrow> json \<Rightarrow> world \<Rightarrow> (error + json) \<times> world" where
  "V1_get_project_data srv self project_id s =
     (case quote project_id of
        Inl e \<Rightarrow> (Inl e, s)
      | Inr pid \<Rightarrow> V1_request srv self ''GET'' (''/project/'' @ pid @ ''/data'') None s)"

subsection \<open>The internal interface (class \<open>TickTickV2\<close>)\<close>

text \<open>The session fields; Python's \<open>None\<close> in a field that holds JSON is \<open>JNull\<close>.\<close>

record TickTickV2 =
  session_token :: json
  csrf_token :: "string option"
  inbox_id :: json
  device_id :: string

definition V2_BASE_URL :: string where
  "V2_BASE_URL = ''https://api.ticktick.com/api/v2''"

text \<open>\<open>TickTickV2._request\<close>: as on the official interface, with an optional query string.\<close>

definition V2_request ::
  "server \<Rightarrow> TickTickV2 \<Rightarrow> string \<Rightarrow> string \<Rightarrow> json option \<Rightarrow> (string \<times> string) list
     \<Rightarrow> world \<Rightarrow> (error + json) \<times> world" where
  "V2_request srv self meth path data params s =
     (let url = V2_BASE_URL @ path;
          url = (if params \<noteq> [] then url @ ''?'' @ urlencode params else url);
          body = (if truthy_opt data then data else None);
          req = \<lparr>req_method = meth, req_url = url, req_body = body\<rparr>;
          s' = s\<lparr>requests := requests s @ [req]\<rparr>
      in case srv req of
           HTTPError code body_text \<Rightarrow> error_exit (V2_api_error code body_text) s'
         | Response cookies None \<Rightarrow> (Inr (JObj fmempty), s')
         | Response cookies (Some j) \<Rightarrow> (Inr j, s'))"

text \<open>
  Text search for the cookie: \<open>after_first sep s\<close> is what follows the first occurrence of
  \<open>sep\<close> in \<open>s\<close> (\<open>None\<close> when \<open>sep\<close> does not occur), \<open>before_first sep s\<close> is what
  precedes it (all of \<open>s\<close> when it does not occur). So \<open>s.split(sep)[1]\<close> is
  \<open>before_first sep\<close> of \<open>after_first sep s\<close>, and \<open>s.split(sep)[0]\<close> is
  \<open>before_first sep s\<close>.
\<close>

fun after_first :: "string \<Rightarrow> string \<Rightarrow> string option" where
  "after_first sep [] = (if sep = [] then Some [] else None)"
| "after_first sep (c # cs) =
     (if take (length sep) (c # cs) = sep then Some (drop (length sep) (c # cs))
      else after_first sep cs)"

fun before_first :: "string \<Rightarrow> string \<Rightarrow> string" where
  "before_first sep [] = []"
| "before_first sep (c # cs) =
     (if take (length sep) (c # cs) = sep then [] else c # before_first sep cs)"

text \<open>The loop over the \<open>Set-Cookie\<close> lines: the last line holding a CSRF token wins.\<close>

fun read_csrf :: "string list \<Rightarrow> string option \<Rightarrow> string option" where
  "read_csrf [] csrf = csrf"
| "read_csrf (header # headers) csrf =
     (case after_first ''_csrf_token='' header of
        None \<Rightarrow> read_csrf headers csrf
      | Some rest \<Rightarrow>
          read_csrf headers (Some (before_first '';'' (before_first ''_csrf_token='' rest))))"

definition login_request :: "json \<Rightarrow> string \<Rightarrow> request" where
  "login_request payload endpoint =
     \<lparr>req_method = ''POST'',
      req_url = V2_BASE_URL @ endpoint @ ''?'' @ urlencode [(''wc'', ''true''), (''remember'', ''true'')],
      req_body = Some payload\<rparr>"

text \<open>
  One pass of the loop of \<open>TickTickV2._login\<close>, on the answer to the request sent to one
  endpoint. An HTTP error is recorded in \<open>last_error\<close> and the loop goes on; an answer
  with a truthy token ends the login; an answer without one goes on and records nothing.
  The body of an answer is parsed without a test for the empty text, and \<open>json.loads\<close>
  raises on it.
\<close>

datatype attempt =
    Logged_in TickTickV2
  | Next_endpoint TickTickV2 "string option"
  | Raised error

definition login_attempt :: "response \<Rightarrow> TickTickV2 \<Rightarrow> string option \<Rightarrow> attempt" where
  "login_attempt resp self last_error =
     (case resp of
        HTTPError code body_text \<Rightarrow>
          Next_endpoint self (Some (''HTTP '' @ str_nat code @ '': '' @ body_text))
      | Response cookies None \<Rightarrow> Raised JSONDecodeError
      | Response cookies (Some result) \<Rightarrow>
          (let self1 = self\<lparr>csrf_token := read_csrf cookies (csrf_token self)\<rparr>
           in case py_get result ''token'' JNull of
                Inl e \<Rightarrow> Raised e
              | Inr tok \<Rightarrow>
                  (case py_get result ''inboxId'' (JStr []) of
                     Inl e \<Rightarrow> Raised e
                   | Inr inbox \<Rightarrow>
                       (let self2 = self1\<lparr>session_token := tok, inbox_id := inbox\<rparr>
                        in if truthy tok then Logged_in self2
                           else Next_endpoint self2 last_error))))"

text \<open>
  The loop over the endpoints still to try; when none is left the login is fatal, with the
  last recorded error in the message.
\<close>

fun login_loop ::
  "server \<Rightarrow> json \<Rightarrow> string list \<Rightarrow> TickTickV2 \<Rightarrow> string option \<Rightarrow> world
     \<Rightarrow> (error + TickTickV2) \<times> world" where
  "login_loop srv payload [] self last_error s = error_exit (V2_login_failed last_error) s"
| "login_loop srv payload (endpoint # endpoints) self last_error s =
     (case login_attempt (srv (login_request payload endpoint)) self last_error of
        Logged_in self' \<Rightarrow>
          (Inr self', s\<lparr>requests := requests s @ [login_request payload endpoint]\<rparr>)
      | Next_endpoint self' last_error' \<Rightarrow>
          login_loop srv payload endpoints self' last_error'
            (s\<lparr>requests := requests s @ [login_request payload endpoint]\<rparr>)
      | Raised e \<Rightarrow>
          (Inl e, s\<lparr>requests := requests s @ [login_request payload endpoint]\<rparr>))"

definition login_endpoints :: "string list" where
  "login_endpoints = [''/user/signon'', ''/user/signin'']"

definition login_payload :: "string \<Rightarrow> string \<Rightarrow> json" where
  "login_payload username password =
     JObj (fmap_of_list [(''username'', JStr username), (''password'', JStr password)])"

definition login ::
  "server \<Rightarrow> TickTickV2 \<Rightarrow> string \<Rightarrow> string \<Rightarrow> world \<Rightarrow> (error + TickTickV2) \<times> world" where
  "login srv self username password s =
     login_loop srv (login_payload username password) login_endpoints self None s"





text \<open>\<open>TickTickV2.__init__\<close>: the device identity is drawn once, then the login runs.\<close>

definition TickTickV2_init ::
  "server \<Rightarrow> entropy \<Rightarrow> string option \<Rightarrow> string option \<Rightarrow> world
     \<Rightarrow> (error + TickTickV2) \<times> world" where
  "TickTickV2_init srv entropy username password s =
     (case (username, password) of
        (Some u, Some pw) \<Rightarrow>
          if u = [] \<or> pw = [] then error_exit V2_credentials_missing s
          else login srv
                 \<lparr>session_token = JNull, csrf_token = None, inbox_id = JNull,
                  device_id = ''65a0'' @ token_hex 10 entropy\<rparr> u pw s
      | _ \<Rightarrow> error_exit V2_credentials_missing s)"

definition V2_sync :: "server \<Rightarrow> TickTickV2 \<Rightarrow> world \<Rightarrow> (error + json) \<times> world" where
  "V2_sync srv self s = V2_request srv self ''GET'' ''/batch/check/0'' None [] s"

text \<open>
  The identifier that \<open>TickTickV2.upload_attachment\<close> builds for the attachment, from the
  clock's reading in whole seconds (\<open>int(time.time())\<close>) and eight random bytes.
\<close>

definition attachment_id :: "int \<Rightarrow> entropy \<Rightarrow> string" where
  "attachment_id now entropy =
     (let timestamp_hex = format_08x now;
          random_hex = token_hex 8 entropy
      in timestamp_hex @ random_hex)"

text \<open>\<open>TickTickV2.batch_tag\<close>: only the truthy arguments enter the payload.\<close>

definition put_if_truthy :: "string \<Rightarrow> json option \<Rightarrow> dict \<Rightarrow> dict" where
  "put_if_truthy k v payload =
     (case v of
        None \<Rightarrow> payload
      | Some x \<Rightarrow> if truthy x then fmupd k x payload else payload)"

definition V2_batch_tag ::
  "server \<Rightarrow> TickTickV2 \<Rightarrow> json option \<Rightarrow> json option \<Rightarrow> json option \<Rightarrow> world
     \<Rightarrow> (error + json) \<times> world" where
  "V2_batch_tag srv self add update delete s =
     (let payload = fmempty;
          payload = put_if_truthy ''add'' add payload;
          payload = put_if_truthy ''update'' update payload;
          payload = put_if_truthy ''delete'' delete payload
      in V2_request srv self ''POST'' ''/batch/tag'' (Some (JObj payload)) [] s)"

subsection \<open>The priority tables\<close>

definition PRIORITY_MAP :: "(string, int) fmap" where
  "PRIORITY_MAP = fmap_of_list [(''none'', 0), (''low'', 1), (''medium'', 3), (''high'', 5)]"

definition PRIORITY_REVERSE :: "(int, string) fmap" where
  "PRIORITY_REVERSE = fmap_of_list [(0, ''none''), (1, ''low''), (3, ''medium''), (5, ''high'')]"

subsection \<open>The unified dispatcher (class \<open>TickTickClient\<close>)\<close>

record TickTickClient =
  v1 :: "TickTickV1 option"
  v2 :: "TickTickV2 option"

text \<open>\<open>existing.update(kwargs)\<close>: only a dictionary has the method.\<close>

fun dict_update :: "json \<Rightarrow> dict \<Rightarrow> error + json" where
  "dict_update (JObj existing) kwargs = Inr (JObj (existing ++\<^sub>f kwargs))"
| "dict_update _ kwargs = Inl AttributeError"

definition update_task ::
  "server \<Rightarrow> TickTickClient \<Rightarrow> string \<Rightarrow> dict \<Rightarrow> world \<Rightarrow> (error + json) \<times> world" where
  "update_task srv self task_id kwargs s =
     (case v1 self of
        None \<Rightarrow> error_exit (Requires_V1 ''update_task'') s
      | Some c \<Rightarrow>
          (case fmlookup kwargs ''projectId'' of
             None \<Rightarrow> error_exit Requires_projectId s
           | Some project_id \<Rightarrow>
               if \<not> truthy project_id then error_exit Requires_projectId s
               else
                 (case V1_get_task srv c project_id task_id s of
                    (Inl e, s1) \<Rightarrow> (Inl e, s1)
                  | (Inr existing, s1) \<Rightarrow>
                      (case dict_update existing kwargs of
                         Inl e \<Rightarrow> (Inl e, s1)
                       | Inr merged \<Rightarrow> V1_update_task srv c task_id merged s1))))"

text \<open>
  \<open>TickTickClient.__init__\<close>: each interface is set up only when its credentials are truthy
  (the internal one logs in at once); with neither the construction is fatal.
\<close>

definition TickTickClient_init ::
  "server \<Rightarrow> entropy \<Rightarrow> string option \<Rightarrow> string option \<Rightarrow> string option \<Rightarrow> world
     \<Rightarrow> (error + TickTickClient) \<times> world" where
  "TickTickClient_init srv entropy token username password s =
     (case (if str_truthy token
            then (case TickTickV1_init token s of
                    (Inl e, s1) \<Rightarrow> (Inl e, s1)
                  | (Inr c, s1) \<Rightarrow> (Inr (Some c), s1))
            else (Inr None, s)) of
        (Inl e, s1) \<Rightarrow> (Inl e, s1)
      | (Inr c1, s1) \<Rightarrow>
          (case (if str_truthy username \<and> str_truthy password
                 then (case TickTickV2_init srv entropy username password s1 of
                         (Inl e, s2) \<Rightarrow> (Inl e, s2)
                       | (Inr c, s2) \<Rightarrow> (Inr (Some c), s2))
                 else (Inr None, s1)) of
             (Inl e, s2) \<Rightarrow> (Inl e, s2)
           | (Inr c2, s2) \<Rightarrow>
               if c1 = None \<and> c2 = None then error_exit No_credentials s2
               else (Inr \<lparr>v1 = c1, v2 = c2\<rparr>, s2)))"

text \<open>\<open>create_client_from_env\<close>: the three credentials are read from the environment.\<close>

definition create_client_from_env ::
  "server \<Rightarrow> entropy \<Rightarrow> (string \<rightharpoonup> string) \<Rightarrow> world \<Rightarrow> (error + TickTickClient) \<times> world" where
  "create_client_from_env srv entropy environ s =
     TickTickClient_init srv entropy (environ ''TICKTICK_ACCESS_TOKEN'')
       (environ ''TICKTICK_USERNAME'') (environ ''TICKTICK_PASSWORD'') s"

text \<open>
  \<open>TickTickClient.list_projects\<close>. A dispatcher is never built with neither interface; on
  one without either, the access to \<open>self.v2.sync\<close> raises \<open>AttributeError\<close>.
\<close>

definition list_projects :: "server \<Rightarrow> TickTickClient \<Rightarrow> world \<Rightarrow> (error + json) \<times> world" where
  "list_projects srv self s =
     (case v1 self of
        Some c \<Rightarrow> V1_list_projects srv c s
      | None \<Rightarrow>
          (case v2 self of
             None \<Rightarrow> (Inl AttributeError, s)
           | Some c2 \<Rightarrow>
               (case V2_sync srv c2 s of
                  (Inl e, s1) \<Rightarrow> (Inl e, s1)
                | (Inr data, s1) \<Rightarrow>
                    (case py_get data ''projectProfiles'' (JList []) of
                       Inl e \<Rightarrow> (Inl e, s1)
                     | Inr ps \<Rightarrow> (Inr ps, s1)))))"

text \<open>
  The body of the \<open>try\<close> in the loop of \<open>list_tasks\<close>: fetch one project's data and give
  the tasks that \<open>all_tasks\<close> is extended with.
\<close>

definition fetch_project_tasks ::
  "server \<Rightarrow> TickTickV1 \<Rightarrow> json \<Rightarrow> world \<Rightarrow> (error + json list) \<times> world" where
  "fetch_project_tasks srv c p s =
     (case py_getitem p ''id'' of
        Inl e \<Rightarrow> (Inl e, s)
      | Inr pid \<Rightarrow>
          (case V1_get_project_data srv c pid s of
             (Inl e, s1) \<Rightarrow> (Inl e, s1)
           | (Inr pd, s1) \<Rightarrow>
               (case py_get pd ''tasks'' (JList []) of
                  Inl e \<Rightarrow> (Inl e, s1)
                | Inr ts \<Rightarrow>
                    (case py_iter ts of
                       Inl e \<Rightarrow> (Inl e, s1)
                     | Inr xs \<Rightarrow> (Inr xs, s1)))))"

text \<open>
  The loop over the projects: \<open>except SystemExit: pass\<close> skips a project whose fetch was
  fatal; any other exception leaves the loop.
\<close>

fun collect_tasks ::
  "server \<Rightarrow> TickTickV1 \<Rightarrow> json list \<Rightarrow> json list \<Rightarrow> world \<Rightarrow> (error + json list) \<times> world" where
  "collect_tasks srv c [] all_tasks s = (Inr all_tasks, s)"
| "collect_tasks srv c (p # ps) all_tasks s =
     (case fetch_project_tasks srv c p s of
        (Inl (SystemExit code), s1) \<Rightarrow> collect_tasks srv c ps all_tasks s1
      | (Inl e, s1) \<Rightarrow> (Inl e, s1)
      | (Inr xs, s1) \<Rightarrow> collect_tasks srv c ps (all_tasks @ xs) s1)"

text \<open>
  \<open>TickTickClient.list_tasks\<close>, from the comment "all tasks" on: the sync of the internal
  interface when there is one, else the walk over the projects of the official one.
\<close>

definition list_tasks_all ::
  "server \<Rightarrow> TickTickClient \<Rightarrow> string option \<Rightarrow> world \<Rightarrow> (error + json) \<times> world" where
  "list_tasks_all srv self project_id s =
     (case v2 self of
        Some c2 \<Rightarrow>
          (case V2_sync srv c2 s of
             (Inl e, s1) \<Rightarrow> (Inl e, s1)
           | (Inr data, s1) \<Rightarrow>
               (case py_get data ''syncTaskBean'' (JObj fmempty) of
                  Inl e \<Rightarrow> (Inl e, s1)
                | Inr bean \<Rightarrow>
                    (case py_get bean ''update'' (JList []) of
                       Inl e \<Rightarrow> (Inl e, s1)
                     | Inr tasks \<Rightarrow>
                         (case project_id of
                            None \<Rightarrow> (Inr tasks, s1)
                          | Some pid \<Rightarrow>
                              if pid = [] then (Inr tasks, s1)
                              else
                                (case py_iter tasks of
                                   Inl e \<Rightarrow> (Inl e, s1)
                                 | Inr ts \<Rightarrow>
                                     (case comprehension
                                             (\<lambda>t. case py_get t ''projectId'' JNull of
                                                    Inl e \<Rightarrow> Inl e
                                                  | Inr v \<Rightarrow> Inr (eq_str v pid)) ts of
                                        Inl e \<Rightarrow> (Inl e, s1)
                                      | Inr r \<Rightarrow> (Inr (JList r), s1)))))))
      | None \<Rightarrow>
          (case v1 self of
             None \<Rightarrow> (Inl AttributeError, s)
           | Some c \<Rightarrow>
               (case V1_list_projects srv c s of
                  (Inl e, s1) \<Rightarrow> (Inl e, s1)
                | (Inr projects, s1) \<Rightarrow>
                    (case py_iter projects of
                       Inl e \<Rightarrow> (Inl e, s1)
                     | Inr ps \<Rightarrow>
                         (case collect_tasks srv c ps [] s1 of
                            (Inl e, s2) \<Rightarrow> (Inl e, s2)
                          | (Inr all_tasks, s2) \<Rightarrow> (Inr (JList all_tasks), s2))))))"

text \<open>
  \<open>TickTickClient.list_tasks\<close>: a truthy project id on a dispatcher with the official
  interface is answered from that project's data; every other call goes on as above.
\<close>

definition list_tasks ::
  "server \<Rightarrow> TickTickClient \<Rightarrow> string option \<Rightarrow> world \<Rightarrow> (error + json) \<times> world" where
  "list_tasks srv self project_id s =
     (case project_id of
        None \<Rightarrow> list_tasks_all srv self project_id s
      | Some pid \<Rightarrow>
          if pid = [] then list_tasks_all srv self project_id s
          else
            (case v1 self of
               None \<Rightarrow> list_tasks_all srv self project_id s
             | Some c \<Rightarrow>
                 (case V1_get_project_data srv c (JStr pid) s of
                    (Inl e, s1) \<Rightarrow> (Inl e, s1)
                  | (Inr data, s1) \<Rightarrow>
                      (case py_get data ''tasks'' (JList []) of
                         Inl e \<Rightarrow> (Inl e, s1)
                       | Inr ts \<Rightarrow> (Inr ts, s1)))))"

text \<open>
  \<open>TickTickClient.create_tag\<close>. The dictionary \<open>tag\<close> that the method builds before it
  sends it is \<open>new_tag\<close>. Python's \<open>str.lower\<close> works from the case tables of Unicode,
  which are not part of this program: it is the parameter \<open>lower\<close>, about which nothing
  is assumed.
\<close>

definition new_tag :: "(string \<Rightarrow> string) \<Rightarrow> string \<Rightarrow> string option \<Rightarrow> string option \<Rightarrow> dict" where
  "new_tag lower name color parent =
     (let tag = fmap_of_list
                  [(''label'', JStr name), (''name'', JStr (lower name)),
                   (''sortType'', JStr ''project'')];
          tag = (case color of
                   None \<Rightarrow> tag
                 | Some col \<Rightarrow> if col = [] then tag else fmupd ''color'' (JStr col) tag);
          tag = (case parent of
                   None \<Rightarrow> tag
                 | Some par \<Rightarrow>
                     if par = [] then tag else fmupd ''parent'' (JStr (lower par)) tag)
      in tag)"

definition create_tag ::
  "(string \<Rightarrow> string) \<Rightarrow> server \<Rightarrow> TickTickClient \<Rightarrow> string \<Rightarrow> string option \<Rightarrow> string option
     \<Rightarrow> world \<Rightarrow> (error + json) \<times> world" where
  "create_tag lower srv self name color parent s =
     (case v2 self of
        None \<Rightarrow> error_exit (Requires_V2 ''tag-create'') s
      | Some c2 \<Rightarrow>
          V2_batch_tag srv c2 (Some (JList [JObj (new_tag lower name color parent)])) None None s)"

subsection \<open>The command line (\<open>ticktick_cli.py\<close>)\<close>

text \<open>\<open>_json_output(data)\<close>: print the document on the output stream.\<close>

definition json_output :: "json \<Rightarrow> world \<Rightarrow> world" where
  "json_output data s = s\<lparr>stdout := stdout s @ [data]\<rparr>"

text \<open>
  The status filter of \<open>cmd_tasks\<close>: a task without a \<open>status\<close> field counts with status 0.
\<close>

definition status_is :: "int \<Rightarrow> json \<Rightarrow> error + bool" where
  "status_is n t =
     (case py_get t ''status'' (JInt 0) of
        Inl e \<Rightarrow> Inl e
      | Inr v \<Rightarrow> Inr (eq_int v n))"

definition status_filter :: "string option \<Rightarrow> json \<Rightarrow> error + json" where
  "status_filter status tasks =
     (if status = Some ''pending'' then
        (case py_iter tasks of
           Inl e \<Rightarrow> Inl e
         | Inr ts \<Rightarrow>
             (case comprehension (status_is 0) ts of
                Inl e \<Rightarrow> Inl e
              | Inr r \<Rightarrow> Inr (JList r)))
      else if status = Some ''completed'' then
        (case py_iter tasks of
           Inl e \<Rightarrow> Inl e
         | Inr ts \<Rightarrow>
             (case comprehension (status_is 2) ts of
                Inl e \<Rightarrow> Inl e
              | Inr r \<Rightarrow> Inr (JList r)))
      else Inr tasks)"

text \<open>
  For the statements about the filter: a task record is a JSON object, \<open>status_of\<close> is its
  \<open>status\<close> field when it has one, and \<open>has_status n\<close> says that it has one that is equal
  to \<open>n\<close> (equal as Python's \<open>==\<close> has it).
\<close>

definition is_record :: "json \<Rightarrow> bool" where
  "is_record t = (case t of JObj m \<Rightarrow> True | _ \<Rightarrow> False)"

definition status_of :: "json \<Rightarrow> json option" where
  "status_of t = (case t of JObj m \<Rightarrow> fmlookup m ''status'' | _ \<Rightarrow> None)"

definition has_status :: "int \<Rightarrow> json \<Rightarrow> bool" where
  "has_status n t = (case status_of t of None \<Rightarrow> False | Some v \<Rightarrow> eq_int v n)"

text \<open>\<open>cmd_tasks(args)\<close>, with \<open>args.project\<close> and \<open>args.status\<close> as arguments.\<close>

definition cmd_tasks ::
  "server \<Rightarrow> entropy \<Rightarrow> (string \<rightharpoonup> string) \<Rightarrow> string option \<Rightarrow> string option \<Rightarrow> world
     \<Rightarrow> (error + unit) \<times> world" where
  "cmd_tasks srv entropy environ project status s =
     (case create_client_from_env srv entropy environ s of
        (Inl e, s1) \<Rightarrow> (Inl e, s1)
      | (Inr client, s1) \<Rightarrow>
          (case list_tasks srv client project s1 of
             (Inl e, s2) \<Rightarrow> (Inl e, s2)
           | (Inr tasks, s2) \<Rightarrow>
               (case status_filter status tasks of
                  Inl e \<Rightarrow> (Inl e, s2)
                | Inr tasks' \<Rightarrow> (Inr (), json_output tasks' s2))))"

subsection \<open>The listing operations in the words of the specification\<close>

text \<open>
  The requests that the listing operations send, and, for the walk over the projects: the
  identifier of a project record, whether the fetch of its data succeeds, the task list in
  the answer, and the requests for the data of a list of projects. A project is
  well formed when it is a record with a string \<open>id\<close> and the answer to the fetch of its
  data, when it succeeds, is empty or a record whose \<open>tasks\<close> field, if any, is a list.
\<close>

definition projects_request :: request where
  "projects_request = \<lparr>req_method = ''GET'', req_url = V1_BASE_URL @ ''/project'', req_body = None\<rparr>"

definition project_data_request :: "string \<Rightarrow> request" where
  "project_data_request pid =
     \<lparr>req_method = ''GET'', req_url = V1_BASE_URL @ ''/project/'' @ quote_str pid @ ''/data'',
      req_body = None\<rparr>"

definition sync_request :: request where
  "sync_request = \<lparr>req_method = ''GET'', req_url = V2_BASE_URL @ ''/batch/check/0'', req_body = None\<rparr>"

definition project_id_of :: "json \<Rightarrow> string option" where
  "project_id_of p =
     (case p of
        JObj m \<Rightarrow> (case fmlookup m ''id'' of Some (JStr pid) \<Rightarrow> Some pid | _ \<Rightarrow> None)
      | _ \<Rightarrow> None)"

definition fetch_succeeds :: "server \<Rightarrow> json \<Rightarrow> bool" where
  "fetch_succeeds srv p =
     (case project_id_of p of
        None \<Rightarrow> False
      | Some pid \<Rightarrow>
          (case srv (project_data_request pid) of
             HTTPError code body_text \<Rightarrow> False
           | Response cookies body \<Rightarrow> True))"

definition task_list_of :: "server \<Rightarrow> json \<Rightarrow> json list" where
  "task_list_of srv p =
     (case project_id_of p of
        None \<Rightarrow> []
      | Some pid \<Rightarrow>
          (case srv (project_data_request pid) of
             Response cookies (Some (JObj d)) \<Rightarrow>
               (case fmlookup d ''tasks'' of Some (JList ts) \<Rightarrow> ts | _ \<Rightarrow> [])
           | _ \<Rightarrow> []))"

definition well_formed_project :: "server \<Rightarrow> json \<Rightarrow> bool" where
  "well_formed_project srv p =
     (case project_id_of p of
        None \<Rightarrow> False
      | Some pid \<Rightarrow>
          (case srv (project_data_request pid) of
             HTTPError code body_text \<Rightarrow> True
           | Response cookies None \<Rightarrow> True
           | Response cookies (Some (JObj d)) \<Rightarrow>
               (case fmlookup d ''tasks'' of None \<Rightarrow> True | Some (JList ts) \<Rightarrow> True | Some _ \<Rightarrow> False)
           | Response cookies (Some _) \<Rightarrow> False))"

definition data_requests :: "json list \<Rightarrow> request list" where
  "data_requests ps = List.map_filter (\<lambda>p. map_option project_data_request (project_id_of p)) ps"

subsection \<open>Sample inputs\<close>

text \<open>
  A stored task with an attachment, a remote that serves it on the official interface and
  answers every other request with an empty body, and a dispatcher holding only a token.
\<close>

definition sample_task :: dict where
  "sample_task = fmap_of_list
     [(''id'', JStr ''t1''), (''projectId'', JStr ''p1''), (''title'', JStr ''old title''),
      (''attachments'', JList [JObj (fmap_of_list [(''id'', JStr ''a1'')])])]"

definition sample_get_task :: request where
  "sample_get_task =
     \<lparr>req_method = ''GET'',
      req_url = ''https://api.ticktick.com/open/v1/project/p1/task/t1'',
      req_body = None\<rparr>"

definition sample_srv :: server where
  "sample_srv req =
     (if req = sample_get_task then Response [] (Some (JObj sample_task)) else Response [] None)"

definition v1_only :: TickTickClient where
  "v1_only = \<lparr>v1 = Some \<lparr>access_token = ''token''\<rparr>, v2 = None\<rparr>"

definition world0 :: world where
  "world0 = \<lparr>requests = [], stderr = [], stdout = []\<rparr>"

text \<open>A dispatcher holding only a session of the internal interface.\<close>

definition v2_only :: TickTickClient where
  "v2_only = \<lparr>v1 = None,
              v2 = Some \<lparr>session_token = JStr ''session'', csrf_token = None,
                        inbox_id = JStr ''inbox1'', device_id = ''65a000000000000000000000''\<rparr>\<rparr>"

text \<open>Three tasks: open, completed, and one without a status field.\<close>

definition sample_tasks :: "json list" where
  "sample_tasks =
     [JObj (fmap_of_list [(''id'', JStr ''t1''), (''status'', JInt 0)]),
      JObj (fmap_of_list [(''id'', JStr ''t2''), (''status'', JInt 2)]),
      JObj (fmap_of_list [(''id'', JStr ''t3'')])]"

text \<open>A random source whose first two bytes are \<open>0xAB\<close> and \<open>0x0F\<close>, the others zero.\<close>

definition sample_entropy :: entropy where
  "sample_entropy i = (if i = 0 then 0xAB else if i = 1 then 0x0F else 0)"

text \<open>
  A remote with two projects: the first holds two tasks, the fetch of the second fails. Its
  sync snapshot on the internal interface holds one task, different from those two.
\<close>

definition project_p1 :: json where
  "project_p1 = JObj (fmap_of_list [(''id'', JStr ''p1''), (''name'', JStr ''Inbox'')])"

definition project_p2 :: json where
  "project_p2 = JObj (fmap_of_list [(''id'', JStr ''p2''), (''name'', JStr ''Archive'')])"

definition task_a :: json where
  "task_a = JObj (fmap_of_list [(''id'', JStr ''a''), (''projectId'', JStr ''p1'')])"

definition task_b :: json where
  "task_b = JObj (fmap_of_list [(''id'', JStr ''b''), (''projectId'', JStr ''p1'')])"

definition task_c :: json where
  "task_c = JObj (fmap_of_list [(''id'', JStr ''c''), (''projectId'', JStr ''p2'')])"

definition snapshot :: json where
  "snapshot = JObj (fmap_of_list
     [(''projectProfiles'', JList [project_p1, project_p2]),
      (''syncTaskBean'', JObj (fmap_of_list [(''update'', JList [task_c])]))])"

definition sample_remote :: server where
  "sample_remote req =
     (if req = projects_request then Response [] (Some (JList [project_p1, project_p2]))
      else if req = project_data_request ''p1''
        then Response [] (Some (JObj (fmap_of_list [(''tasks'', JList [task_a, task_b])])))
      else if req = project_data_request ''p2'' then HTTPError 500 ''internal error''
      else if req = sync_request then Response [] (Some snapshot)
      else Response [] None)"

definition both_interfaces :: TickTickClient where
  "both_interfaces = \<lparr>v1 = v1 v1_only, v2 = v2 v2_only\<rparr>"







text \<open>
  A lowering function for the sample names, which are ASCII: the letters \<open>A\<close> to \<open>Z\<close>
  become \<open>a\<close> to \<open>z\<close>, as \<open>str.lower\<close> has it on such names.
\<close>

definition ascii_lower :: "string \<Rightarrow> string" where
  "ascii_lower s =
     map (\<lambda>c. case map_of (zip ''ABCDEFGHIJKLMNOPQRSTUVWXYZ'' ''abcdefghijklmnopqrstuvwxyz'') c of
                None \<Rightarrow> c
              | Some l \<Rightarrow> l) s"

section \<open>Properties\<close>

subsection \<open>Partial task update requires a project id\<close>

text \<open>
  C9. When the fields handed to \<open>update_task\<close> do not include \<open>projectId\<close>, the call ends
  in \<open>sys.exit(1)\<close> with a diagnostic on the error stream, and it sends no request at all:
  neither the read of the existing task nor the write happens.
\<close>

theorem update_task_requires_projectId:
  assumes "fmlookup kwargs ''projectId'' = None"
  shows "fst (update_task srv self task_id kwargs s) = Inl (SystemExit 1)
       \<and> requests (snd (update_task srv self task_id kwargs s)) = requests s
       \<and> stderr (snd (update_task srv self task_id kwargs s)) =
           stderr s @ [if v1 self = None then Requires_V1 ''update_task'' else Requires_projectId]"
  using assms
  by (simp add: update_task_def error_exit_def split: option.splits)

theorem update_task_requires_projectId_witness:
  "fmlookup (fmap_of_list [(''title'', JStr ''new title'')]) ''projectId'' = None
   \<and> fst (update_task sample_srv v1_only ''t1'' (fmap_of_list [(''title'', JStr ''new title'')]) world0)
       = Inl (SystemExit 1)
   \<and> requests (snd (update_task sample_srv v1_only ''t1''
                      (fmap_of_list [(''title'', JStr ''new title'')]) world0)) = []"
proof -
  have h: "fmlookup (fmap_of_list [(''title'', JStr ''new title'')]) ''projectId'' = None"
    by (simp add: fmlookup_of_list)
  from update_task_requires_projectId [OF h, of sample_srv v1_only "''t1''" world0] h
  show ?thesis by (simp add: world0_def)
qed

subsection \<open>Partial task update: read, overlay, write\<close>

lemma fmlookup_Some_not_empty: "fmlookup m k = Some v \<Longrightarrow> m \<noteq> fmempty"
  by auto

lemma V1_request_logs:
  "requests (snd (V1_request srv c meth path data s)) =
     requests s @ [\<lparr>req_method = meth, req_url = V1_BASE_URL @ path,
                     req_body = (if truthy_opt data then data else None)\<rparr>]"
  by (simp add: V1_request_def Let_def error_exit_def split: response.splits option.splits)

text \<open>
  C1, as stated for every update: an update that names only the title, on a dispatcher with
  the official interface and a remote that holds the task, reads nothing and submits
  nothing; it ends in \<open>sys.exit(1)\<close>.
\<close>

theorem update_task_title_only_counterexample:
  "update_task sample_srv v1_only ''t1'' (fmap_of_list [(''title'', JStr ''new title'')]) world0
     = (Inl (SystemExit 1), \<lparr>requests = [], stderr = [Requires_projectId], stdout = []\<rparr>)"
  by (simp add: update_task_def v1_only_def world0_def error_exit_def fmlookup_of_list)

text \<open>
  C1, amended. On a dispatcher with the official interface, for every update \<open>kwargs\<close>
  whose \<open>projectId\<close> is a non-empty string and every task record \<open>existing\<close> that the
  remote returns for the task, \<open>update_task\<close> sends exactly two requests: the read of the
  task, then the write of \<open>existing\<close> overlaid with \<open>kwargs\<close>. In the submitted record
  every field of \<open>kwargs\<close> has the value \<open>kwargs\<close> gives it, and every field that
  \<open>kwargs\<close> does not name is as in \<open>existing\<close>.
\<close>

theorem update_task_merges:
  assumes v1: "v1 self = Some c"
    and pid: "fmlookup kwargs ''projectId'' = Some (JStr pid)" "pid \<noteq> []"
    and fetch: "srv \<lparr>req_method = ''GET'',
                      req_url = V1_BASE_URL @ ''/project/'' @ quote_str pid @ ''/task/'' @ quote_str task_id,
                      req_body = None\<rparr> = Response cookies (Some (JObj existing))"
  shows "requests (snd (update_task srv self task_id kwargs s)) =
           requests s @
           [\<lparr>req_method = ''GET'',
             req_url = V1_BASE_URL @ ''/project/'' @ quote_str pid @ ''/task/'' @ quote_str task_id,
             req_body = None\<rparr>,
            \<lparr>req_method = ''POST'',
             req_url = V1_BASE_URL @ ''/task/'' @ quote_str task_id,
             req_body = Some (JObj (existing ++\<^sub>f kwargs))\<rparr>]
       \<and> (\<forall>k v. fmlookup kwargs k = Some v \<longrightarrow> fmlookup (existing ++\<^sub>f kwargs) k = Some v)
       \<and> (\<forall>k. fmlookup kwargs k = None \<longrightarrow>
              fmlookup (existing ++\<^sub>f kwargs) k = fmlookup existing k)"
proof -
  let ?get = "\<lparr>req_method = ''GET'',
               req_url = V1_BASE_URL @ ''/project/'' @ quote_str pid @ ''/task/'' @ quote_str task_id,
               req_body = None\<rparr>"
  let ?s1 = "s\<lparr>requests := requests s @ [?get]\<rparr>"
  have get: "V1_get_task srv c (JStr pid) task_id s = (Inr (JObj existing), ?s1)"
    using fetch by (simp add: V1_get_task_def V1_request_def truthy_opt_def)
  have "fmlookup (existing ++\<^sub>f kwargs) ''projectId'' = Some (JStr pid)"
    using pid(1) by (simp add: fmdomI)
  then have nonempty: "existing ++\<^sub>f kwargs \<noteq> fmempty"
    by (rule fmlookup_Some_not_empty)
  have run: "update_task srv self task_id kwargs s =
               V1_update_task srv c task_id (JObj (existing ++\<^sub>f kwargs)) ?s1"
    using v1 pid get by (simp add: update_task_def)
  have "requests (snd (update_task srv self task_id kwargs s)) =
          requests ?s1 @ [\<lparr>req_method = ''POST'',
                             req_url = V1_BASE_URL @ ''/task/'' @ quote_str task_id,
                             req_body = Some (JObj (existing ++\<^sub>f kwargs))\<rparr>]"
    unfolding run V1_update_task_def Let_def V1_request_logs
    using nonempty by (simp add: truthy_opt_def)
  moreover have "\<forall>k v. fmlookup kwargs k = Some v \<longrightarrow> fmlookup (existing ++\<^sub>f kwargs) k = Some v"
    by (simp add: fmdomI)
  moreover have "\<forall>k. fmlookup kwargs k = None \<longrightarrow>
                   fmlookup (existing ++\<^sub>f kwargs) k = fmlookup existing k"
    by (simp add: fmdom_notI)
  ultimately show ?thesis by simp
qed

theorem update_task_merges_witness:
  "requests (snd (update_task sample_srv v1_only ''t1''
       (fmap_of_list [(''projectId'', JStr ''p1''), (''title'', JStr ''new title'')]) world0)) =
     [sample_get_task,
      \<lparr>req_method = ''POST'', req_url = ''https://api.ticktick.com/open/v1/task/t1'',
       req_body = Some (JObj (sample_task ++\<^sub>f
          fmap_of_list [(''projectId'', JStr ''p1''), (''title'', JStr ''new title'')]))\<rparr>]
   \<and> fmlookup (sample_task ++\<^sub>f
          fmap_of_list [(''projectId'', JStr ''p1''), (''title'', JStr ''new title'')]) ''title''
       = Some (JStr ''new title'')
   \<and> fmlookup (sample_task ++\<^sub>f
          fmap_of_list [(''projectId'', JStr ''p1''), (''title'', JStr ''new title'')]) ''attachments''
       = Some (JList [JObj (fmap_of_list [(''id'', JStr ''a1'')])])"
proof -
  let ?kw = "fmap_of_list [(''projectId'', JStr ''p1''), (''title'', JStr ''new title'')]"
  have h1: "v1 v1_only = Some \<lparr>access_token = ''token''\<rparr>"
    by (simp add: v1_only_def)
  have h2: "fmlookup ?kw ''projectId'' = Some (JStr ''p1'')"
    by (simp add: fmlookup_of_list)
  have h3: "''p1'' \<noteq> []"
    by simp
  have url: "V1_BASE_URL @ ''/project/'' @ quote_str ''p1'' @ ''/task/'' @ quote_str ''t1''
               = ''https://api.ticktick.com/open/v1/project/p1/task/t1''"
    by (simp add: V1_BASE_URL_def quote_str_def quote_byte_def always_safe_def)
  have url2: "V1_BASE_URL @ ''/task/'' @ quote_str ''t1'' = ''https://api.ticktick.com/open/v1/task/t1''"
    by (simp add: V1_BASE_URL_def quote_str_def quote_byte_def always_safe_def)
  have h4: "sample_srv \<lparr>req_method = ''GET'',
               req_url = V1_BASE_URL @ ''/project/'' @ quote_str ''p1'' @ ''/task/'' @ quote_str ''t1'',
               req_body = None\<rparr> = Response [] (Some (JObj sample_task))"
    unfolding url by (simp add: sample_srv_def sample_get_task_def)
  have t: "fmlookup ?kw ''title'' = Some (JStr ''new title'')"
    by (simp add: fmlookup_of_list)
  have a: "fmlookup ?kw ''attachments'' = None"
    by (simp add: fmlookup_of_list)
  have e: "fmlookup sample_task ''attachments'' = Some (JList [JObj (fmap_of_list [(''id'', JStr ''a1'')])])"
    by (simp add: sample_task_def fmlookup_of_list)
  from update_task_merges [where srv = sample_srv and task_id = "''t1''" and s = world0, OF h1 h2 h3 h4]
  show ?thesis
    unfolding url url2 using t a e
    by (simp add: world0_def sample_get_task_def)
qed

subsection \<open>Dispatcher construction without credentials\<close>

text \<open>
  C6. When the access token is missing or empty and the username and password are not both
  present and non-empty, the construction of the dispatcher prints the diagnostic and ends
  in \<open>sys.exit(1)\<close>; the requests sent are those sent before, so nothing reached the
  network.
\<close>

theorem client_init_no_credentials:
  assumes "\<not> str_truthy token" and "\<not> (str_truthy username \<and> str_truthy password)"
  shows "TickTickClient_init srv entropy token username password s =
           (Inl (SystemExit 1), s\<lparr>stderr := stderr s @ [No_credentials]\<rparr>)
       \<and> requests (snd (TickTickClient_init srv entropy token username password s)) = requests s"
proof -
  from assms(2) have no_v2: "(str_truthy username \<and> str_truthy password) = False"
    by simp
  show ?thesis
    unfolding TickTickClient_init_def no_v2 using assms(1) by (simp add: error_exit_def)
qed

theorem client_init_no_credentials_witness:
  "\<not> str_truthy None \<and> \<not> (str_truthy (Some ''user@example.com'') \<and> str_truthy (Some ''''))
   \<and> TickTickClient_init sample_srv (\<lambda>i. 0) None (Some ''user@example.com'') (Some '''') world0 =
       (Inl (SystemExit 1), \<lparr>requests = [], stderr = [No_credentials], stdout = []\<rparr>)"
proof -
  have h1: "\<not> str_truthy None" by (simp add: str_truthy_def)
  have h2: "\<not> (str_truthy (Some ''user@example.com'') \<and> str_truthy (Some ''''))"
    by (simp add: str_truthy_def)
  from client_init_no_credentials [OF h1 h2, of sample_srv "\<lambda>i. 0" world0] h1 h2
  show ?thesis by (simp add: world0_def)
qed

subsection \<open>The priority tables are inverse bijections\<close>

text \<open>
  C5. \<open>PRIORITY_MAP\<close> sends none, low, medium, high to 0, 1, 3, 5; \<open>PRIORITY_REVERSE\<close>
  sends them back; each is a bijection between the four names and the four ordinals, and
  looking a value up in one table and the result in the other gives the value back.
\<close>

theorem priority_bijection:
  "fmlookup PRIORITY_MAP ''none'' = Some 0 \<and> fmlookup PRIORITY_MAP ''low'' = Some 1
   \<and> fmlookup PRIORITY_MAP ''medium'' = Some 3 \<and> fmlookup PRIORITY_MAP ''high'' = Some 5
   \<and> fmlookup PRIORITY_REVERSE 0 = Some ''none'' \<and> fmlookup PRIORITY_REVERSE 1 = Some ''low''
   \<and> fmlookup PRIORITY_REVERSE 3 = Some ''medium'' \<and> fmlookup PRIORITY_REVERSE 5 = Some ''high''
   \<and> fmdom' PRIORITY_MAP = {''none'', ''low'', ''medium'', ''high''}
   \<and> fmdom' PRIORITY_REVERSE = {0, 1, 3, 5}
   \<and> bij_betw (\<lambda>s. the (fmlookup PRIORITY_MAP s)) {''none'', ''low'', ''medium'', ''high''} {0, 1, 3, 5}
   \<and> bij_betw (\<lambda>n. the (fmlookup PRIORITY_REVERSE n)) {0, 1, 3, 5} {''none'', ''low'', ''medium'', ''high''}
   \<and> (\<forall>s \<in> {''none'', ''low'', ''medium'', ''high''}.
         Option.bind (fmlookup PRIORITY_MAP s) (fmlookup PRIORITY_REVERSE) = Some s)
   \<and> (\<forall>n \<in> {0, 1, 3, 5}.
         Option.bind (fmlookup PRIORITY_REVERSE n) (fmlookup PRIORITY_MAP) = Some n)"
proof -
  have fwd: "fmlookup PRIORITY_MAP ''none'' = Some 0" "fmlookup PRIORITY_MAP ''low'' = Some 1"
    "fmlookup PRIORITY_MAP ''medium'' = Some 3" "fmlookup PRIORITY_MAP ''high'' = Some 5"
    by (simp_all add: PRIORITY_MAP_def)
  have bwd: "fmlookup PRIORITY_REVERSE 0 = Some ''none''" "fmlookup PRIORITY_REVERSE 1 = Some ''low''"
    "fmlookup PRIORITY_REVERSE 3 = Some ''medium''" "fmlookup PRIORITY_REVERSE 5 = Some ''high''"
    by (simp_all add: PRIORITY_REVERSE_def)
  have doms: "fmdom' PRIORITY_MAP = {''none'', ''low'', ''medium'', ''high''}"
    "fmdom' PRIORITY_REVERSE = {0, 1, 3, 5}"
    by (simp_all add: PRIORITY_MAP_def PRIORITY_REVERSE_def)
  have b1: "bij_betw (\<lambda>s. the (fmlookup PRIORITY_MAP s)) {''none'', ''low'', ''medium'', ''high''} {0, 1, 3, 5}"
    unfolding bij_betw_def inj_on_def using fwd by auto
  have b2: "bij_betw (\<lambda>n. the (fmlookup PRIORITY_REVERSE n)) {0, 1, 3, 5} {''none'', ''low'', ''medium'', ''high''}"
    unfolding bij_betw_def inj_on_def using bwd by auto
  show ?thesis
    using fwd bwd doms b1 b2 by simp
qed

theorem priority_bijection_witness:
  "''medium'' \<in> {''none'', ''low'', ''medium'', ''high''}
   \<and> Option.bind (fmlookup PRIORITY_MAP ''medium'') (fmlookup PRIORITY_REVERSE) = Some ''medium''
   \<and> (3::int) \<in> {0, 1, 3, 5}
   \<and> Option.bind (fmlookup PRIORITY_REVERSE 3) (fmlookup PRIORITY_MAP) = Some 3"
  using priority_bijection by simp

subsection \<open>The status filter of the task listing\<close>

lemma comprehension_total:
  assumes "\<forall>t\<in>set ts. cond t = Inr (P t)"
  shows "comprehension cond ts = Inr (filter P ts)"
  using assms by (induction ts) simp_all

lemma status_is_record:
  "is_record t \<Longrightarrow> status_is n t = Inr (if status_of t = None then n = 0 else has_status n t)"
  by (cases t) (simp_all add: is_record_def status_is_def status_of_def has_status_def split: option.splits)

text \<open>
  C10. On a list of task records, the filter \<open>pending\<close> keeps, in order, exactly the tasks
  whose status field is absent or equal to 0, and the filter \<open>completed\<close> exactly the tasks
  whose status field is equal to 2; a task without a status field is in the first result
  and not in the second.
\<close>

theorem status_filter_pending_completed:
  assumes "\<forall>t\<in>set ts. is_record t"
  shows "status_filter (Some ''pending'') (JList ts) =
           Inr (JList (filter (\<lambda>t. status_of t = None \<or> has_status 0 t) ts))
       \<and> status_filter (Some ''completed'') (JList ts) =
           Inr (JList (filter (has_status 2) ts))
       \<and> (\<forall>t\<in>set ts. status_of t = None \<longrightarrow>
             t \<in> set (filter (\<lambda>t. status_of t = None \<or> has_status 0 t) ts)
           \<and> t \<notin> set (filter (has_status 2) ts))"
proof -
  have p: "comprehension (status_is 0) ts = Inr (filter (\<lambda>t. status_of t = None \<or> has_status 0 t) ts)"
    using assms by (intro comprehension_total) (auto simp: status_is_record has_status_def)
  have c: "comprehension (status_is 2) ts = Inr (filter (has_status 2) ts)"
    using assms by (intro comprehension_total) (auto simp: status_is_record has_status_def)
  have n: "\<forall>t\<in>set ts. status_of t = None \<longrightarrow>
             t \<in> set (filter (\<lambda>t. status_of t = None \<or> has_status 0 t) ts)
           \<and> t \<notin> set (filter (has_status 2) ts)"
    by (simp add: has_status_def)
  show ?thesis
    using p c n by (simp add: status_filter_def)
qed

theorem status_filter_pending_completed_witness:
  "list_all is_record sample_tasks
   \<and> status_of (JObj (fmap_of_list [(''id'', JStr ''t3'')])) = None
   \<and> status_filter (Some ''pending'') (JList sample_tasks) =
       Inr (JList [JObj (fmap_of_list [(''id'', JStr ''t1''), (''status'', JInt 0)]),
                   JObj (fmap_of_list [(''id'', JStr ''t3'')])])
   \<and> status_filter (Some ''completed'') (JList sample_tasks) =
       Inr (JList [JObj (fmap_of_list [(''id'', JStr ''t2''), (''status'', JInt 2)])])"
proof -
  have h: "\<forall>t\<in>set sample_tasks. is_record t"
    by (simp add: sample_tasks_def is_record_def)
  from status_filter_pending_completed [OF h] h
  show ?thesis
    by (simp add: sample_tasks_def status_of_def has_status_def is_record_def)
qed

subsection \<open>Tag creation\<close>

lemma V2_request_logs:
  "requests (snd (V2_request srv c meth path data [] s)) =
     requests s @ [\<lparr>req_method = meth, req_url = V2_BASE_URL @ path,
                     req_body = (if truthy_opt data then data else None)\<rparr>]"
  by (simp add: V2_request_def Let_def error_exit_def split: response.splits option.splits)

text \<open>
  C8. On a dispatcher with the internal interface, for every name and whatever
  \<open>str.lower\<close> computes, \<open>create_tag\<close> sends one request, whose body adds one tag record.
  In that record the field \<open>label\<close> is the name as the caller gave it, the field \<open>name\<close> is
  the lowercased name, and the field \<open>parent\<close> is the lowercased parent when a non-empty
  parent is given and absent otherwise.
\<close>

theorem create_tag_lowercases_name:
  assumes "v2 self = Some c2"
  shows "requests (snd (create_tag lower srv self name color parent s)) =
           requests s @
           [\<lparr>req_method = ''POST'', req_url = V2_BASE_URL @ ''/batch/tag'',
             req_body = Some (JObj (fmupd ''add'' (JList [JObj (new_tag lower name color parent)]) fmempty))\<rparr>]
       \<and> fmlookup (new_tag lower name color parent) ''label'' = Some (JStr name)
       \<and> fmlookup (new_tag lower name color parent) ''name'' = Some (JStr (lower name))
       \<and> fmlookup (new_tag lower name color parent) ''parent'' =
            (case parent of
               None \<Rightarrow> None
             | Some par \<Rightarrow> if par = [] then None else Some (JStr (lower par)))"
proof -
  have sent: "requests (snd (create_tag lower srv self name color parent s)) =
           requests s @
           [\<lparr>req_method = ''POST'', req_url = V2_BASE_URL @ ''/batch/tag'',
             req_body = Some (JObj (fmupd ''add'' (JList [JObj (new_tag lower name color parent)]) fmempty))\<rparr>]"
    using assms
    by (simp add: create_tag_def V2_batch_tag_def put_if_truthy_def V2_request_logs truthy_opt_def)
  have label: "fmlookup (new_tag lower name color parent) ''label'' = Some (JStr name)"
    by (simp add: new_tag_def Let_def split: option.splits)
  have name: "fmlookup (new_tag lower name color parent) ''name'' = Some (JStr (lower name))"
    by (simp add: new_tag_def Let_def split: option.splits)
  have parent: "fmlookup (new_tag lower name color parent) ''parent'' =
            (case parent of
               None \<Rightarrow> None
             | Some par \<Rightarrow> if par = [] then None else Some (JStr (lower par)))"
    by (simp add: new_tag_def Let_def split: option.splits)
  show ?thesis
    using sent label name parent by simp
qed

theorem create_tag_lowercases_name_witness:
  "v2 v2_only \<noteq> None
   \<and> requests (snd (create_tag ascii_lower sample_srv v2_only ''Work'' None (Some ''Projects'') world0)) =
       [\<lparr>req_method = ''POST'', req_url = ''https://api.ticktick.com/api/v2/batch/tag'',
         req_body = Some (JObj (fmap_of_list [(''add'', JList [JObj (fmap_of_list
            [(''parent'', JStr ''projects''), (''label'', JStr ''Work''), (''name'', JStr ''work''),
             (''sortType'', JStr ''project'')])])]))\<rparr>]"
proof -
  have h: "v2 v2_only = Some \<lparr>session_token = JStr ''session'', csrf_token = None,
                        inbox_id = JStr ''inbox1'', device_id = ''65a000000000000000000000''\<rparr>"
    by (simp add: v2_only_def)
  have tag: "new_tag ascii_lower ''Work'' None (Some ''Projects'') = fmap_of_list
            [(''parent'', JStr ''projects''), (''label'', JStr ''Work''), (''name'', JStr ''work''),
             (''sortType'', JStr ''project'')]"
    by (simp add: new_tag_def Let_def ascii_lower_def)
  from create_tag_lowercases_name
    [where lower = ascii_lower and srv = sample_srv and name = "''Work''" and color = None
       and parent = "Some ''Projects''" and s = world0, OF h] h
  show ?thesis
    unfolding tag by (simp add: world0_def V2_BASE_URL_def)
qed

subsection \<open>The attachment identifier\<close>

lemma index_of_nth:
  "distinct xs \<Longrightarrow> k < length xs \<Longrightarrow> length (takeWhile (\<lambda>d. d \<noteq> xs ! k) xs) = k"
proof (induction xs arbitrary: k)
  case Nil
  then show ?case by simp
next
  case (Cons x xs)
  show ?case
  proof (cases k)
    case 0
    then show ?thesis by simp
  next
    case (Suc j)
    with Cons.prems have "j < length xs" and "x \<notin> set xs" and "distinct xs" by simp_all
    then have "xs ! j \<noteq> x" using nth_mem by metis
    with Suc Cons.IH [OF \<open>distinct xs\<close> \<open>j < length xs\<close>] show ?thesis by simp
  qed
qed

lemma hex_lower_in: "hex_lower n \<in> hex_chars"
  unfolding hex_lower_def hex_chars_def by (rule nth_mem) simp

lemma digit_value_hex_lower: "digit_value (hex_lower n) = n mod 16"
  unfolding hex_lower_def digit_value_def by (rule index_of_nth) simp_all

lemma hex_digits_chars: "set (hex_digits n) \<subseteq> hex_chars"
proof (induction n rule: hex_digits.induct)
  case (1 n)
  show ?case
  proof (cases "n < 16")
    case True
    then show ?thesis by (subst hex_digits.simps) (simp add: hex_lower_in)
  next
    case False
    with 1 show ?thesis by (subst hex_digits.simps) (simp add: hex_lower_in)
  qed
qed

lemma hex_digits_length: "n < 16 ^ k \<Longrightarrow> 0 < k \<Longrightarrow> length (hex_digits n) \<le> k"
proof (induction n arbitrary: k rule: hex_digits.induct)
  case (1 n)
  show ?case
  proof (cases "n < 16")
    case True
    with 1(3) show ?thesis by (subst hex_digits.simps) simp
  next
    case False
    from 1(3) obtain j where k: "k = Suc j" by (cases k) auto
    from False 1(2) k have "0 < j" by (cases j) auto
    moreover from 1(2) k have "n div 16 < 16 ^ j"
      by (simp add: less_mult_imp_div_less mult.commute)
    ultimately have "length (hex_digits (n div 16)) \<le> j"
      using 1(1) [OF False] by simp
    with False k show ?thesis by (subst hex_digits.simps) simp
  qed
qed

lemma hex_value_snoc: "hex_value (s @ [c]) = 16 * hex_value s + digit_value c"
  by (simp add: hex_value_def)

lemma hex_value_hex_digits: "hex_value (hex_digits n) = n"
proof (induction n rule: hex_digits.induct)
  case (1 n)
  show ?case
  proof (cases "n < 16")
    case True
    then show ?thesis
      by (subst hex_digits.simps) (simp add: hex_value_def digit_value_hex_lower)
  next
    case False
    with 1 show ?thesis
      by (subst hex_digits.simps) (simp add: hex_value_snoc digit_value_hex_lower)
  qed
qed

lemma hex_value_zeros: "hex_value (replicate k CHR ''0'' @ s) = hex_value s"
proof (induction k)
  case 0
  then show ?case by simp
next
  case (Suc k)
  have "hex_value (CHR ''0'' # t) = hex_value t" for t
    by (simp add: hex_value_def digit_value_def)
  with Suc show ?case by simp
qed

lemma byte_hex_length: "length (byte_hex b) = 2"
  by (simp add: byte_hex_def)

lemma byte_hex_chars: "set (byte_hex b) \<subseteq> hex_chars"
  by (simp add: byte_hex_def hex_lower_in)

lemma token_hex_length: "length (token_hex n e) = 2 * n"
  by (induction n) (simp_all add: token_hex_def byte_hex_length)

lemma token_hex_chars: "set (token_hex n e) \<subseteq> hex_chars"
  using byte_hex_chars by (auto simp: token_hex_def)


lemma format_08x_nonneg: "0 \<le> now \<Longrightarrow> format_08x now = zero_pad 8 (hex_digits (nat now))"
  by (simp add: format_08x_def)

lemma format_08x_length:
  assumes "0 \<le> now" "now < 2 ^ 32"
  shows "length (format_08x now) = 8"
proof -
  have "(2::int) ^ 32 = 4294967296" by simp
  with assms have "nat now < 4294967296" by linarith
  moreover have "(16::nat) ^ 8 = 4294967296" by simp
  ultimately have "nat now < 16 ^ 8" by (simp only:)
  then have "length (hex_digits (nat now)) \<le> 8"
    by (rule hex_digits_length) simp
  then show ?thesis
    unfolding format_08x_nonneg [OF assms(1)] zero_pad_def by simp
qed

lemma zeros_chars: "set (replicate k CHR ''0'') \<subseteq> hex_chars"
  by (auto simp: hex_chars_def)

lemma format_08x_chars: "0 \<le> now \<Longrightarrow> set (format_08x now) \<subseteq> hex_chars"
  using hex_digits_chars [of "nat now"] zeros_chars [of "8 - length (hex_digits (nat now))"]
  unfolding format_08x_nonneg zero_pad_def set_append by (rule_tac Un_least)

lemma format_08x_value: "0 \<le> now \<Longrightarrow> int (hex_value (format_08x now)) = now"
  unfolding format_08x_nonneg zero_pad_def hex_value_zeros hex_value_hex_digits by simp

lemma sample_token: "token_hex 8 sample_entropy = ''ab0f000000000000''"
proof -
  have "[0..<8] = [0, 1, 2, 3, 4, 5, 6, 7]" by (simp add: upt_rec)
  then show ?thesis
    by (simp add: token_hex_def byte_hex_def hex_lower_def sample_entropy_def)
qed

text \<open>
  Within the range of an eight-digit timestamp the identifier is what the comment in the
  source announces ("24-digit hex, like a MongoDB ObjectId"): for every clock reading
  \<open>now\<close> with \<open>0 \<le> now < 2 ^ 32\<close> and every draw of the random source it has 24
  characters, all of them lowercase hexadecimal digits; its first eight characters are
  \<open>format(now, '08x')\<close> and write the number \<open>now\<close>; the sixteen that follow are the
  two-digit codes of the eight random bytes.
\<close>

theorem attachment_id_format:
  assumes "0 \<le> now" and "now < 2 ^ 32"
  shows "length (attachment_id now entropy) = 24
       \<and> set (attachment_id now entropy) \<subseteq> set ''0123456789abcdef''
       \<and> take 8 (attachment_id now entropy) = format_08x now
       \<and> int (hex_value (take 8 (attachment_id now entropy))) = now
       \<and> drop 8 (attachment_id now entropy) = token_hex 8 entropy"
proof -
  have len: "length (format_08x now) = 8"
    using assms by (rule format_08x_length)
  have chars: "set (attachment_id now entropy) \<subseteq> hex_chars"
    using format_08x_chars [OF assms(1)] token_hex_chars [of 8 entropy]
    by (simp add: attachment_id_def)
  have id: "attachment_id now entropy = format_08x now @ token_hex 8 entropy"
    by (simp add: attachment_id_def)
  have "length (attachment_id now entropy) = 24"
    unfolding id using len token_hex_length [of 8 entropy] by simp
  moreover have "set (attachment_id now entropy) \<subseteq> set ''0123456789abcdef''"
    using chars unfolding hex_chars_def .
  moreover have "take 8 (attachment_id now entropy) = format_08x now"
    unfolding id using len by simp
  moreover have "int (hex_value (take 8 (attachment_id now entropy))) = now"
    unfolding id using len format_08x_value [OF assms(1)] by simp
  moreover have "drop 8 (attachment_id now entropy) = token_hex 8 entropy"
    unfolding id using len by simp
  ultimately show ?thesis by (intro conjI)
qed

theorem attachment_id_format_witness:
  "(0::int) \<le> 1762250000 \<and> (1762250000::int) < 2 ^ 32
   \<and> attachment_id 1762250000 sample_entropy = ''6909cd10ab0f000000000000''
   \<and> length (attachment_id 1762250000 sample_entropy) = 24"
proof -
  have h1: "(0::int) \<le> 1762250000" by simp
  have h2: "(1762250000::int) < 2 ^ 32" by simp
  have v: "format_08x 1762250000 = ''6909cd10''"
    by (simp add: format_08x_def zero_pad_def hex_digits.simps hex_lower_def)
  from attachment_id_format [OF h1 h2, of sample_entropy] v sample_token
  show ?thesis by (simp add: attachment_id_def)
qed

text \<open>
  C7. The identifier is to have 24 characters, the first eight of them the timestamp. At
  the clock reading \<open>2 ^ 32\<close> (7 February 2106) the code does not do it: \<open>'08x'\<close> pads
  and never cuts, the timestamp takes nine digits, the identifier has 25 characters, and
  its first eight characters write another number than the clock reading.
\<close>

theorem attachment_id_year_2106:
  "attachment_id 4294967296 sample_entropy = ''100000000ab0f000000000000''
   \<and> length (attachment_id 4294967296 sample_entropy) = 25
   \<and> hex_value (take 8 (attachment_id 4294967296 sample_entropy)) = 268435456"
proof -
  have v: "format_08x 4294967296 = ''100000000''"
    by (simp add: format_08x_def zero_pad_def hex_digits.simps hex_lower_def)
  have "hex_value ''10000000'' = 268435456"
    by (simp add: hex_value_def digit_value_def)
  then show ?thesis
    using v sample_token by (simp add: attachment_id_def)
qed

subsection \<open>Login\<close>









subsection \<open>Listing every task through the official interface\<close>

lemma V1_get_project_data_run:
  "V1_get_project_data srv c (JStr pid) s =
     (case srv (project_data_request pid) of
        HTTPError code body_text \<Rightarrow>
          (Inl (SystemExit 1),
           s\<lparr>requests := requests s @ [project_data_request pid],
             stderr := stderr s @ [V1_api_error code body_text]\<rparr>)
      | Response cookies None \<Rightarrow>
          (Inr (JObj fmempty), s\<lparr>requests := requests s @ [project_data_request pid]\<rparr>)
      | Response cookies (Some j) \<Rightarrow>
          (Inr j, s\<lparr>requests := requests s @ [project_data_request pid]\<rparr>))"
  by (simp add: V1_get_project_data_def V1_request_def project_data_request_def truthy_opt_def
        error_exit_def split: response.splits option.splits)

lemma project_id_ofD:
  "project_id_of p = Some pid \<Longrightarrow> \<exists>m. p = JObj m \<and> fmlookup m ''id'' = Some (JStr pid)"
  by (auto simp: project_id_of_def split: json.splits option.splits)

lemma fetch_project_tasks_id:
  assumes "project_id_of p = Some pid"
  shows "fetch_project_tasks srv c p s =
           (case V1_get_project_data srv c (JStr pid) s of
              (Inl e, s1) \<Rightarrow> (Inl e, s1)
            | (Inr pd, s1) \<Rightarrow>
                (case py_get pd ''tasks'' (JList []) of
                   Inl e \<Rightarrow> (Inl e, s1)
                 | Inr ts \<Rightarrow>
                     (case py_iter ts of
                        Inl e \<Rightarrow> (Inl e, s1)
                      | Inr xs \<Rightarrow> (Inr xs, s1))))"
proof -
  from project_id_ofD [OF assms] obtain m where "p = JObj m" and "fmlookup m ''id'' = Some (JStr pid)"
    by blast
  then show ?thesis by (simp add: fetch_project_tasks_def)
qed

lemma fetch_failed:
  assumes "project_id_of p = Some pid" and "srv (project_data_request pid) = HTTPError code body_text"
  shows "fetch_project_tasks srv c p s =
           (Inl (SystemExit 1),
            s\<lparr>requests := requests s @ [project_data_request pid],
              stderr := stderr s @ [V1_api_error code body_text]\<rparr>)"
  unfolding fetch_project_tasks_id [OF assms(1)] V1_get_project_data_run assms(2) by simp

lemma fetch_ok:
  assumes pid: "project_id_of p = Some pid"
    and resp: "srv (project_data_request pid) = Response cookies body"
    and wf: "well_formed_project srv p"
  shows "fetch_project_tasks srv c p s =
           (Inr (task_list_of srv p), s\<lparr>requests := requests s @ [project_data_request pid]\<rparr>)"
proof (cases body)
  case None
  have "task_list_of srv p = []"
    using pid resp None by (simp add: task_list_of_def)
  then show ?thesis
    unfolding fetch_project_tasks_id [OF pid] V1_get_project_data_run resp None by simp
next
  case (Some j)
  from wf pid resp Some obtain d where j: "j = JObj d"
    by (cases j) (simp_all add: well_formed_project_def)
  show ?thesis
  proof (cases "fmlookup d ''tasks''")
    case None
    have "task_list_of srv p = []"
      using pid resp Some j None by (simp add: task_list_of_def)
    then show ?thesis
      unfolding fetch_project_tasks_id [OF pid] V1_get_project_data_run resp Some j
      using None by simp
  next
    case (Some v)
    from wf pid resp \<open>body = Some j\<close> j Some obtain ts where v: "v = JList ts"
      by (cases v) (simp_all add: well_formed_project_def)
    have "task_list_of srv p = ts"
      using pid resp \<open>body = Some j\<close> j Some v by (simp add: task_list_of_def)
    then show ?thesis
      unfolding fetch_project_tasks_id [OF pid] V1_get_project_data_run resp \<open>body = Some j\<close> j
      using Some v by simp
  qed
qed

lemma collect_tasks_concat:
  assumes "\<forall>p\<in>set ps. well_formed_project srv p"
  shows "fst (collect_tasks srv c ps all_tasks s) =
           Inr (all_tasks @ concat (map (task_list_of srv) (filter (fetch_succeeds srv) ps)))
       \<and> requests (snd (collect_tasks srv c ps all_tasks s)) = requests s @ data_requests ps"
  using assms
proof (induction ps arbitrary: all_tasks s)
  case Nil
  then show ?case by (simp add: data_requests_def List.map_filter_simps)
next
  case (Cons p ps)
  then have wf: "well_formed_project srv p" and rest: "\<forall>p\<in>set ps. well_formed_project srv p"
    by simp_all
  from wf obtain pid where pid: "project_id_of p = Some pid"
    by (auto simp: well_formed_project_def split: option.splits)
  have reqs: "data_requests (p # ps) = project_data_request pid # data_requests ps"
    using pid by (simp add: data_requests_def List.map_filter_simps)
  show ?case
  proof (cases "srv (project_data_request pid)")
    case (HTTPError code body_text)
    have "\<not> fetch_succeeds srv p"
      using pid HTTPError by (simp add: fetch_succeeds_def)
    then show ?thesis
      using Cons.IH [OF rest] fetch_failed [where srv = srv, OF pid HTTPError] reqs by simp
  next
    case (Response cookies body)
    have "fetch_succeeds srv p"
      using pid Response by (simp add: fetch_succeeds_def)
    then show ?thesis
      using Cons.IH [OF rest] fetch_ok [where srv = srv, OF pid Response wf] reqs by simp
  qed
qed

text \<open>
  C4. On a dispatcher with only the official interface, the task listing without a project
  scope, for every list of well-formed projects that the remote returns, asks for the data
  of every project in order and returns the concatenation, in that order, of the task
  lists of exactly the projects whose fetch succeeds; a failing fetch is skipped and
  does not end the listing.
\<close>

theorem list_tasks_walks_projects:
  assumes "v1 self = Some c" and "v2 self = None" and "\<not> str_truthy project_id"
    and "srv projects_request = Response cookies (Some (JList ps))"
    and "\<forall>p\<in>set ps. well_formed_project srv p"
  shows "fst (list_tasks srv self project_id s) =
           Inr (JList (concat (map (task_list_of srv) (filter (fetch_succeeds srv) ps))))
       \<and> requests (snd (list_tasks srv self project_id s)) =
           requests s @ projects_request # data_requests ps"
proof -
  have all: "list_tasks srv self project_id s = list_tasks_all srv self project_id s"
    using assms(3) by (simp add: list_tasks_def str_truthy_def split: option.splits)
  have lp: "V1_list_projects srv c s =
              (Inr (JList ps), s\<lparr>requests := requests s @ [projects_request]\<rparr>)"
    using assms(4)
    by (simp add: V1_list_projects_def V1_request_def projects_request_def truthy_opt_def)
  let ?s1 = "s\<lparr>requests := requests s @ [projects_request]\<rparr>"
  obtain r s' where run: "collect_tasks srv c ps [] ?s1 = (r, s')"
    by (cases "collect_tasks srv c ps [] ?s1")
  from collect_tasks_concat [where srv = srv and c = c and all_tasks = "[]" and s = ?s1, OF assms(5)]
  have r: "r = Inr (concat (map (task_list_of srv) (filter (fetch_succeeds srv) ps)))"
    and s': "requests s' = requests s @ projects_request # data_requests ps"
    unfolding run by simp_all
  have "list_tasks_all srv self project_id s =
          (Inr (JList (concat (map (task_list_of srv) (filter (fetch_succeeds srv) ps)))), s')"
    unfolding list_tasks_all_def assms(1,2) using lp run r by simp
  then show ?thesis
    unfolding all using s' by simp
qed

lemma sample_requests_distinct:
  "project_data_request ''p1'' \<noteq> projects_request"
  "project_data_request ''p2'' \<noteq> projects_request"
  "project_data_request ''p2'' \<noteq> project_data_request ''p1''"
  "sync_request \<noteq> projects_request"
  "sync_request \<noteq> project_data_request ''p1''"
  "sync_request \<noteq> project_data_request ''p2''"
  by (simp_all add: project_data_request_def projects_request_def sync_request_def
        V1_BASE_URL_def V2_BASE_URL_def quote_str_def quote_byte_def always_safe_def)

lemma sample_remote_answers:
  "sample_remote projects_request = Response [] (Some (JList [project_p1, project_p2]))"
  "sample_remote (project_data_request ''p1'') =
     Response [] (Some (JObj (fmap_of_list [(''tasks'', JList [task_a, task_b])])))"
  "sample_remote (project_data_request ''p2'') = HTTPError 500 ''internal error''"
  "sample_remote sync_request = Response [] (Some snapshot)"
  using sample_requests_distinct by (simp_all add: sample_remote_def)

theorem list_tasks_walks_projects_witness:
  "v1 v1_only \<noteq> None \<and> v2 v1_only = None \<and> \<not> str_truthy None
   \<and> well_formed_project sample_remote project_p1 \<and> well_formed_project sample_remote project_p2
   \<and> fetch_succeeds sample_remote project_p1 \<and> \<not> fetch_succeeds sample_remote project_p2
   \<and> fst (list_tasks sample_remote v1_only None world0) = Inr (JList [task_a, task_b])
   \<and> requests (snd (list_tasks sample_remote v1_only None world0)) =
       [projects_request, project_data_request ''p1'', project_data_request ''p2'']"
proof -
  have h1: "v1 v1_only = Some \<lparr>access_token = ''token''\<rparr>" and h2: "v2 v1_only = None"
    by (simp_all add: v1_only_def)
  have h3: "\<not> str_truthy None"
    by (simp add: str_truthy_def)
  have ids: "project_id_of project_p1 = Some ''p1''" "project_id_of project_p2 = Some ''p2''"
    by (simp_all add: project_id_of_def project_p1_def project_p2_def)
  have wf: "well_formed_project sample_remote project_p1" "well_formed_project sample_remote project_p2"
    by (simp_all add: well_formed_project_def ids sample_remote_answers)
  then have h5: "\<forall>p\<in>set [project_p1, project_p2]. well_formed_project sample_remote p"
    by simp
  have ok: "fetch_succeeds sample_remote project_p1" "\<not> fetch_succeeds sample_remote project_p2"
    by (simp_all add: fetch_succeeds_def ids sample_remote_answers)
  have tl: "task_list_of sample_remote project_p1 = [task_a, task_b]"
    by (simp add: task_list_of_def ids sample_remote_answers)
  have rq: "data_requests [project_p1, project_p2] = [project_data_request ''p1'', project_data_request ''p2'']"
    by (simp add: data_requests_def List.map_filter_simps ids)
  from list_tasks_walks_projects [where srv = sample_remote and s = world0, OF h1 h2 h3 sample_remote_answers(1) h5]
  show ?thesis
    using h1 h2 h3 wf ok tl rq by (simp add: world0_def)
qed

subsection \<open>Which interface serves a listing\<close>

lemma V1_list_projects_logs:
  "requests (snd (V1_list_projects srv c s)) = requests s @ [projects_request]"
  by (simp add: V1_list_projects_def V1_request_logs projects_request_def truthy_opt_def)

lemma V1_get_project_data_logs:
  "requests (snd (V1_get_project_data srv c (JStr pid) s)) = requests s @ [project_data_request pid]"
  by (simp add: V1_get_project_data_def V1_request_logs project_data_request_def truthy_opt_def)

lemma V2_sync_logs:
  "requests (snd (V2_sync srv c2 s)) = requests s @ [sync_request]"
  by (simp add: V2_sync_def V2_request_logs sync_request_def truthy_opt_def)

lemma V2_sync_answer:
  "srv sync_request = Response cookies (Some j) \<Longrightarrow>
     V2_sync srv c2 s = (Inr j, s\<lparr>requests := requests s @ [sync_request]\<rparr>)"
  by (simp add: V2_sync_def V2_request_def sync_request_def truthy_opt_def)

lemma list_projects_v2_logs:
  assumes "v1 self = None" and "v2 self = Some c2"
  shows "requests (snd (list_projects srv self s)) = requests s @ [sync_request]"
proof -
  obtain r s1 where run: "V2_sync srv c2 s = (r, s1)"
    by (cases "V2_sync srv c2 s")
  with V2_sync_logs [of srv c2 s] have "requests s1 = requests s @ [sync_request]"
    by simp
  then show ?thesis
    using assms run by (simp add: list_projects_def split: sum.splits)
qed

lemma list_tasks_all_v2_logs:
  assumes "v2 self = Some c2"
  shows "requests (snd (list_tasks_all srv self project_id s)) = requests s @ [sync_request]"
proof -
  obtain r s1 where run: "V2_sync srv c2 s = (r, s1)"
    by (cases "V2_sync srv c2 s")
  with V2_sync_logs [of srv c2 s] have "requests s1 = requests s @ [sync_request]"
    by simp
  then show ?thesis
    using assms run by (simp add: list_tasks_all_def split: sum.splits option.splits)
qed

lemma list_tasks_scoped_v1_logs:
  assumes "v1 self = Some c" and "pid \<noteq> []"
  shows "requests (snd (list_tasks srv self (Some pid) s)) = requests s @ [project_data_request pid]"
proof -
  obtain r s1 where run: "V1_get_project_data srv c (JStr pid) s = (r, s1)"
    by (cases "V1_get_project_data srv c (JStr pid) s")
  with V1_get_project_data_logs [of srv c pid s]
  have "requests s1 = requests s @ [project_data_request pid]"
    by simp
  then show ?thesis
    using assms run by (simp add: list_tasks_def split: sum.splits)
qed

lemma list_tasks_unscoped:
  "\<not> str_truthy project_id \<Longrightarrow>
     list_tasks srv self project_id s = list_tasks_all srv self project_id s"
  by (simp add: list_tasks_def str_truthy_def split: option.splits)

lemma list_tasks_without_v1:
  "v1 self = None \<Longrightarrow> list_tasks srv self project_id s = list_tasks_all srv self project_id s"
  by (simp add: list_tasks_def split: option.splits)

lemma fetch_project_tasks_extends:
  "\<exists>rs. requests (snd (fetch_project_tasks srv c p s)) = requests s @ rs"
proof (cases "py_getitem p ''id''")
  case (Inl e)
  then show ?thesis by (simp add: fetch_project_tasks_def)
next
  case (Inr pid)
  show ?thesis
  proof (cases "quote pid")
    case (Inl e)
    with \<open>py_getitem p ''id'' = Inr pid\<close> show ?thesis
      by (simp add: fetch_project_tasks_def V1_get_project_data_def)
  next
    case (Inr q)
    obtain r s1 where run: "V1_request srv c ''GET'' (''/project/'' @ q @ ''/data'') None s = (r, s1)"
      by (cases "V1_request srv c ''GET'' (''/project/'' @ q @ ''/data'') None s")
    with V1_request_logs [of srv c "''GET''" "''/project/'' @ q @ ''/data''" None s]
    have "\<exists>rs. requests s1 = requests s @ rs"
      by simp
    with \<open>py_getitem p ''id'' = Inr pid\<close> Inr run show ?thesis
      by (simp add: fetch_project_tasks_def V1_get_project_data_def split: sum.splits)
  qed
qed

lemma collect_tasks_extends:
  "\<exists>rs. requests (snd (collect_tasks srv c ps all_tasks s)) = requests s @ rs"
proof (induction ps arbitrary: all_tasks s)
  case Nil
  then show ?case by simp
next
  case (Cons p ps)
  obtain r s1 where run: "fetch_project_tasks srv c p s = (r, s1)"
    by (cases "fetch_project_tasks srv c p s")
  with fetch_project_tasks_extends [of srv c p s] obtain rs1 where rs1: "requests s1 = requests s @ rs1"
    by auto
  show ?case
  proof (cases r)
    case (Inl e)
    show ?thesis
    proof (cases e)
      case (SystemExit code)
      from Cons.IH [of all_tasks s1] obtain rs where "requests (snd (collect_tasks srv c ps all_tasks s1)) = requests s1 @ rs"
        by blast
      with run Inl SystemExit rs1 show ?thesis by simp
    qed (use run Inl rs1 in simp_all)
  next
    case (Inr xs)
    from Cons.IH [of "all_tasks @ xs" s1] obtain rs where "requests (snd (collect_tasks srv c ps (all_tasks @ xs) s1)) = requests s1 @ rs"
      by blast
    with run Inr rs1 show ?thesis by simp
  qed
qed

lemma list_tasks_all_v1_first:
  assumes "v1 self = Some c" and "v2 self = None"
  shows "\<exists>rs. requests (snd (list_tasks_all srv self project_id s)) = requests s @ projects_request # rs"
proof -
  obtain r s1 where run: "V1_list_projects srv c s = (r, s1)"
    by (cases "V1_list_projects srv c s")
  with V1_list_projects_logs [of srv c s] have s1: "requests s1 = requests s @ [projects_request]"
    by simp
  show ?thesis
  proof (cases r)
    case (Inl e)
    with assms run s1 show ?thesis by (simp add: list_tasks_all_def)
  next
    case (Inr projects)
    show ?thesis
    proof (cases "py_iter projects")
      case (Inl e)
      with assms run s1 \<open>r = Inr projects\<close> show ?thesis by (simp add: list_tasks_all_def)
    next
      case (Inr ps)
      obtain r2 s2 where run2: "collect_tasks srv c ps [] s1 = (r2, s2)"
        by (cases "collect_tasks srv c ps [] s1")
      with collect_tasks_extends [of srv c ps "[]" s1] s1
      obtain rs where "requests s2 = requests s @ projects_request # rs"
        by auto
      with assms run \<open>r = Inr projects\<close> Inr run2 show ?thesis
        by (simp add: list_tasks_all_def split: sum.splits)
    qed
  qed
qed

text \<open>
  C2, as stated: with both interfaces present, the task listing without a project scope
  sends its only request to the internal interface and returns the tasks of the sync
  snapshot.
\<close>

theorem list_tasks_both_interfaces_counterexample:
  "list_tasks sample_remote both_interfaces None world0 =
     (Inr (JList [task_c]),
      \<lparr>requests = [\<lparr>req_method = ''GET'', req_url = ''https://api.ticktick.com/api/v2/batch/check/0'',
                     req_body = None\<rparr>],
        stderr = [], stdout = []\<rparr>)"
proof -
  have "V2_sync sample_remote c2 world0 =
          (Inr snapshot, world0\<lparr>requests := requests world0 @ [sync_request]\<rparr>)" for c2
    using sample_remote_answers(4) by (rule V2_sync_answer)
  then show ?thesis
    by (simp add: list_tasks_def list_tasks_all_def both_interfaces_def v2_only_def snapshot_def
          world0_def sync_request_def V2_BASE_URL_def)
qed

text \<open>
  C2, amended. The project listing, and the task listing for a project, use the official
  interface whenever it is there, and the sync snapshot of the internal interface only
  when it is not. The task listing without a project scope uses the sync snapshot of the
  internal interface whenever that interface is there, also when the official one is
  there too, and walks the projects of the official interface only when the internal one
  is not there.
\<close>

theorem listing_interface_choice:
  "(v1 self = Some c \<longrightarrow>
      list_projects srv self s = V1_list_projects srv c s
    \<and> requests (snd (list_projects srv self s)) = requests s @ [projects_request])
   \<and> (v1 self = None \<and> v2 self = Some c2 \<longrightarrow>
      requests (snd (list_projects srv self s)) = requests s @ [sync_request])
   \<and> (v1 self = None \<and> v2 self = Some c2 \<and> srv sync_request = Response cookies (Some (JObj snap)) \<longrightarrow>
      fst (list_projects srv self s) =
        Inr (case fmlookup snap ''projectProfiles'' of None \<Rightarrow> JList [] | Some ps \<Rightarrow> ps))
   \<and> (v1 self = Some c \<and> pid \<noteq> [] \<longrightarrow>
      requests (snd (list_tasks srv self (Some pid) s)) = requests s @ [project_data_request pid])
   \<and> (v1 self = None \<and> v2 self = Some c2 \<longrightarrow>
      requests (snd (list_tasks srv self project_id s)) = requests s @ [sync_request])
   \<and> (v2 self = Some c2 \<and> \<not> str_truthy project_id \<longrightarrow>
      requests (snd (list_tasks srv self project_id s)) = requests s @ [sync_request])
   \<and> (v2 self = Some c2 \<and> \<not> str_truthy project_id
        \<and> srv sync_request = Response cookies (Some (JObj snap))
        \<and> fmlookup snap ''syncTaskBean'' = Some (JObj bean) \<longrightarrow>
      fst (list_tasks srv self project_id s) =
        Inr (case fmlookup bean ''update'' of None \<Rightarrow> JList [] | Some ts \<Rightarrow> ts))
   \<and> (v1 self = Some c \<and> v2 self = None \<and> \<not> str_truthy project_id \<longrightarrow>
      (\<exists>rs. requests (snd (list_tasks srv self project_id s)) = requests s @ projects_request # rs))"
proof (intro conjI impI)
  assume "v1 self = Some c"
  then show "list_projects srv self s = V1_list_projects srv c s"
    by (simp add: list_projects_def)
  with V1_list_projects_logs [of srv c s]
  show "requests (snd (list_projects srv self s)) = requests s @ [projects_request]"
    by simp
next
  assume "v1 self = None \<and> v2 self = Some c2"
  then show "requests (snd (list_projects srv self s)) = requests s @ [sync_request]"
    by (simp add: list_projects_v2_logs)
next
  assume "v1 self = None \<and> v2 self = Some c2 \<and> srv sync_request = Response cookies (Some (JObj snap))"
  then show "fst (list_projects srv self s) =
        Inr (case fmlookup snap ''projectProfiles'' of None \<Rightarrow> JList [] | Some ps \<Rightarrow> ps)"
    by (simp add: list_projects_def V2_sync_answer)
next
  assume "v1 self = Some c \<and> pid \<noteq> []"
  then show "requests (snd (list_tasks srv self (Some pid) s)) = requests s @ [project_data_request pid]"
    by (simp add: list_tasks_scoped_v1_logs)
next
  assume "v1 self = None \<and> v2 self = Some c2"
  then show "requests (snd (list_tasks srv self project_id s)) = requests s @ [sync_request]"
    by (simp add: list_tasks_without_v1 list_tasks_all_v2_logs)
next
  assume "v2 self = Some c2 \<and> \<not> str_truthy project_id"
  then show "requests (snd (list_tasks srv self project_id s)) = requests s @ [sync_request]"
    by (simp add: list_tasks_unscoped list_tasks_all_v2_logs)
next
  assume a: "v2 self = Some c2 \<and> \<not> str_truthy project_id
        \<and> srv sync_request = Response cookies (Some (JObj snap))
        \<and> fmlookup snap ''syncTaskBean'' = Some (JObj bean)"
  then have "list_tasks srv self project_id s = list_tasks_all srv self project_id s"
    by (simp add: list_tasks_unscoped)
  with a show "fst (list_tasks srv self project_id s) =
        Inr (case fmlookup bean ''update'' of None \<Rightarrow> JList [] | Some ts \<Rightarrow> ts)"
    by (auto simp add: list_tasks_all_def V2_sync_answer str_truthy_def split: option.splits)
next
  assume "v1 self = Some c \<and> v2 self = None \<and> \<not> str_truthy project_id"
  then show "\<exists>rs. requests (snd (list_tasks srv self project_id s)) = requests s @ projects_request # rs"
    by (simp add: list_tasks_unscoped list_tasks_all_v1_first)
qed

theorem listing_interface_choice_witness:
  "v1 both_interfaces = v1 v1_only \<and> v1 v1_only \<noteq> None
   \<and> v2 both_interfaces = v2 v2_only \<and> v2 v2_only \<noteq> None
   \<and> v1 v2_only = None \<and> v2 v1_only = None
   \<and> requests (snd (list_projects sample_remote both_interfaces world0)) = [projects_request]
   \<and> requests (snd (list_tasks sample_remote both_interfaces (Some ''p1'') world0)) =
         [project_data_request ''p1'']
   \<and> requests (snd (list_tasks sample_remote both_interfaces None world0)) = [sync_request]
   \<and> fst (list_tasks sample_remote both_interfaces None world0) = Inr (JList [task_c])
   \<and> requests (snd (list_projects sample_remote v2_only world0)) = [sync_request]
   \<and> fst (list_projects sample_remote v2_only world0) = Inr (JList [project_p1, project_p2])
   \<and> requests (snd (list_tasks sample_remote v2_only (Some ''p1'') world0)) = [sync_request]
   \<and> (\<exists>rs. requests (snd (list_tasks sample_remote v1_only None world0)) = projects_request # rs)"
proof -
  let ?c = "\<lparr>access_token = ''token''\<rparr>"
  let ?c2 = "\<lparr>session_token = JStr ''session'', csrf_token = None,
              inbox_id = JStr ''inbox1'', device_id = ''65a000000000000000000000''\<rparr>"
  have b: "v1 both_interfaces = Some ?c" "v2 both_interfaces = Some ?c2"
    and o1: "v1 v1_only = Some ?c" "v2 v1_only = None"
    and o2: "v1 v2_only = None" "v2 v2_only = Some ?c2"
    by (simp_all add: both_interfaces_def v1_only_def v2_only_def)
  have unscoped: "\<not> str_truthy None" and scoped: "''p1'' \<noteq> []"
    by (simp_all add: str_truthy_def)
  have snap: "sample_remote sync_request = Response [] (Some (JObj (fmap_of_list
     [(''projectProfiles'', JList [project_p1, project_p2]),
      (''syncTaskBean'', JObj (fmap_of_list [(''update'', JList [task_c])]))])))"
    using sample_remote_answers(4) by (simp add: snapshot_def)
  note inst = listing_interface_choice
    [where srv = sample_remote and s = world0 and c = ?c and ?c2.0 = ?c2 and pid = "''p1''"
       and cookies = "[]"
       and snap = "fmap_of_list
     [(''projectProfiles'', JList [project_p1, project_p2]),
      (''syncTaskBean'', JObj (fmap_of_list [(''update'', JList [task_c])]))]"
       and bean = "fmap_of_list [(''update'', JList [task_c])]"]
  have B: "requests (snd (list_projects sample_remote both_interfaces world0)) = [projects_request]
      \<and> requests (snd (list_tasks sample_remote both_interfaces (Some ''p1'') world0)) =
            [project_data_request ''p1'']
      \<and> requests (snd (list_tasks sample_remote both_interfaces None world0)) = [sync_request]
      \<and> fst (list_tasks sample_remote both_interfaces None world0) = Inr (JList [task_c])"
    using inst [where self = both_interfaces and project_id = None] b unscoped scoped snap
    by (simp add: world0_def V1_list_projects_logs)
  have V2: "requests (snd (list_projects sample_remote v2_only world0)) = [sync_request]
      \<and> fst (list_projects sample_remote v2_only world0) = Inr (JList [project_p1, project_p2])
      \<and> requests (snd (list_tasks sample_remote v2_only (Some ''p1'') world0)) = [sync_request]"
    using inst [where self = v2_only and project_id = "Some ''p1''"] o2 snap
    by (simp add: world0_def)
  have V1: "\<exists>rs. requests (snd (list_tasks sample_remote v1_only None world0)) = projects_request # rs"
    using inst [where self = v1_only and project_id = None] o1 unscoped
    by (simp add: world0_def)
  show ?thesis
    using b o1 o2 B V2 V1 by simp
qed

end
